theory Spec2Isabelle
  imports Main "HOL-Library.Multiset"
begin

section \<open>JavaScript strings\<close>

text \<open>
  A JavaScript string is a sequence of UTF-16 code units. It is modelled as the list of
  the numeric values of its code units, so that \<open>line[i]\<close>, \<open>length\<close> and the
  comparisons of the source read off unchanged. \<open>js\<close> turns an ASCII literal into
  such a list.
\<close>

type_synonym jsstring = "nat list"

definition js :: "string \<Rightarrow> jsstring" where
  "js s = map of_char s"

abbreviation DQUOTE :: nat where "DQUOTE \<equiv> 34"
abbreviation SEMICOLON :: nat where "SEMICOLON \<equiv> 59"
abbreviation COMMA :: nat where "COMMA \<equiv> 44"
abbreviation NEWLINE :: nat where "NEWLINE \<equiv> 10"
abbreviation DOT :: nat where "DOT \<equiv> 46"
abbreviation SLASH :: nat where "SLASH \<equiv> 47"

text \<open>
  The code units that \<open>String.prototype.trim\<close> and \<open>parseInt\<close> strip: ECMAScript's
  WhiteSpace (TAB, VT, FF, SP, NBSP, ZWNBSP and the Unicode space separators) and
  LineTerminator (LF, CR, LS, PS).
\<close>

definition isWhiteSpace :: "nat \<Rightarrow> bool" where
  "isWhiteSpace c \<longleftrightarrow>
     c = 9 \<or> c = 10 \<or> c = 11 \<or> c = 12 \<or> c = 13 \<or> c = 32 \<or> c = 160 \<or> c = 5760 \<or>
     (8192 \<le> c \<and> c \<le> 8202) \<or> c = 8232 \<or> c = 8233 \<or> c = 8239 \<or> c = 8287 \<or>
     c = 12288 \<or> c = 65279"

definition trim :: "jsstring \<Rightarrow> jsstring" where
  "trim s = rev (dropWhile isWhiteSpace (rev (dropWhile isWhiteSpace s)))"

text \<open>
  \<open>String.prototype.toLowerCase\<close>. The program only asks whether the lower-cased line
  contains the ASCII words \<open>nome\<close> and \<open>caminho\<close>. The code units mapped here are
  all those whose lower-case form contains an ASCII letter: the ASCII capitals, U+0130
  (which becomes \<open>i\<close> followed by U+0307) and U+212A (which becomes \<open>k\<close>). Every
  other code unit is kept as it is; its lower-case form holds no ASCII letter either.
\<close>

definition lowerUnit :: "nat \<Rightarrow> jsstring" where
  "lowerUnit c =
     (if 65 \<le> c \<and> c \<le> 90 then [c + 32]
      else if c = 304 then [105, 775]
      else if c = 8490 then [107]
      else [c])"

definition toLowerCase :: "jsstring \<Rightarrow> jsstring" where
  "toLowerCase s = concat (map lowerUnit s)"

fun startsWith :: "jsstring \<Rightarrow> jsstring \<Rightarrow> bool" where
  "startsWith s [] = True"
| "startsWith [] (p # ps) = False"
| "startsWith (c # cs) (p # ps) = (c = p \<and> startsWith cs ps)"

definition endsWith :: "jsstring \<Rightarrow> jsstring \<Rightarrow> bool" where
  "endsWith s suffix = startsWith (rev s) (rev suffix)"

fun includes_str :: "jsstring \<Rightarrow> jsstring \<Rightarrow> bool" where
  "includes_str [] sub = (sub = [])"
| "includes_str (c # cs) sub = (startsWith (c # cs) sub \<or> includes_str cs sub)"

text \<open>
  \<open>s.split('\n')\<close>: the pieces between line feeds. The result always has at least one
  element; the empty string gives the one-element array \<open>['']\<close>.
\<close>

fun split_newline :: "jsstring \<Rightarrow> jsstring list" where
  "split_newline [] = [[]]"
| "split_newline (c # cs) =
     (if c = NEWLINE then [] # split_newline cs
      else (case split_newline cs of
              l # ls \<Rightarrow> (c # l) # ls
            | [] \<Rightarrow> [[c]]))"

section \<open>CSV entry parser\<close>

text \<open>
  \<open>parseCsvLine\<close> (the same text in every converter). The loop over the code units of
  the line carries \<open>result\<close>, \<open>current\<close> and \<open>inQuotes\<close>.
\<close>

fun parseCsvLoop :: "jsstring \<Rightarrow> jsstring list \<Rightarrow> jsstring \<Rightarrow> bool \<Rightarrow> jsstring list" where
  "parseCsvLoop [] result current inQuotes = result @ [current]"
| "parseCsvLoop (char # rest) result current inQuotes =
     (if char = DQUOTE then parseCsvLoop rest result current (\<not> inQuotes)
      else if char = SEMICOLON \<and> \<not> inQuotes then parseCsvLoop rest (result @ [current]) [] inQuotes
      else parseCsvLoop rest result (current @ [char]) inQuotes)"

definition parseCsvLine :: "jsstring \<Rightarrow> jsstring list" where
  "parseCsvLine line = parseCsvLoop line [] [] False"

text \<open>
  The messages the scripts throw, as values. \<open>IOError p\<close> stands for the error of a
  failed file-system or archiver call on the path \<open>p\<close>. \<open>CsvReadError\<close> and \<open>ReadFolderError\<close>
  are the wrappers \<open>Erro ao ler arquivo CSV: ...\<close> and \<open>Erro ao ler pasta: ...\<close>
  that the \<open>catch\<close> blocks of \<open>readCsvFile\<close> and \<open>readImageFiles\<close> put around the
  error they caught.
\<close>

datatype error =
    Usage
  | OutputNameRequired
  | CsvNotFound jsstring
  | CsvEmpty
  | CsvNoValidEntries
  | CsvReadError error
  | IOError jsstring
  | NotAFolder jsstring
  | FolderNotFound jsstring
  | NoImagesFound
  | ReadFolderError error
  | FileNotFound jsstring
  | NoImagesInAnyFolder
  | NotAFunction string
  | ZipFailed

record entry =
  nome :: jsstring
  caminho :: jsstring

text \<open>
  The \<open>for\<close> loop of \<open>readCsvFile\<close> over \<open>lines\<close>, from index \<open>i\<close>, with the
  \<open>entries\<close> pushed so far. The two \<open>console.warn\<close> calls print and change nothing
  else; they are left out.
\<close>

fun csvLoop :: "nat \<Rightarrow> jsstring list \<Rightarrow> entry list \<Rightarrow> entry list" where
  "csvLoop i [] entries = entries"
| "csvLoop i (l # ls) entries =
     (let line = trim l in
      if line = [] then csvLoop (i + 1) ls entries
      else if i = 0 \<and> includes_str (toLowerCase line) (js ''nome'')
                   \<and> includes_str (toLowerCase line) (js ''caminho'')
        then csvLoop (i + 1) ls entries
      else
        let columns = parseCsvLine line in
        if length columns < 2 then csvLoop (i + 1) ls entries
        else
          let n = trim (columns ! 0); p = trim (columns ! 1) in
          if n = [] \<or> p = [] then csvLoop (i + 1) ls entries
          else csvLoop (i + 1) ls (entries @ [\<lparr>nome = n, caminho = p\<rparr>]))"

text \<open>
  \<open>readCsvFile\<close> once the file has been read: \<open>content\<close> is the text of the file.
  Every error raised inside the \<open>try\<close> is rethrown wrapped.
\<close>

definition readCsvContent :: "jsstring \<Rightarrow> error + entry list" where
  "readCsvContent content =
     (let lines = split_newline (trim content) in
      if length lines = 0 then Inl (CsvReadError CsvEmpty)
      else
        let entries = csvLoop 0 lines [] in
        if length entries = 0 then Inl (CsvReadError CsvNoValidEntries)
        else Inr entries)"

section \<open>The analyzer's CSV generator\<close>

text \<open>
  \<open>generateCSV\<close>: the header, then one row per folder, with every semicolon of the name
  and of the path replaced by a comma (\<open>replace(/;/g, ',')\<close>).
\<close>

definition replaceSemicolons :: "jsstring \<Rightarrow> jsstring" where
  "replaceSemicolons s = map (\<lambda>c. if c = SEMICOLON then COMMA else c) s"

definition csvRow :: "entry \<Rightarrow> jsstring" where
  "csvRow folder =
     replaceSemicolons (nome folder) @ [SEMICOLON] @ replaceSemicolons (caminho folder) @ [NEWLINE]"

definition generateCSV :: "entry list \<Rightarrow> jsstring" where
  "generateCSV folders =
     foldl (\<lambda>csvContent folder. csvContent @ csvRow folder) (js ''nome;caminho'' @ [NEWLINE]) folders"

text \<open>
  The file is written and read back as UTF-8. Encoding replaces a surrogate code unit
  that is not part of a pair by U+FFFD; everything else comes back as it was written.
\<close>

definition isHighSurrogate :: "nat \<Rightarrow> bool" where
  "isHighSurrogate c \<longleftrightarrow> 55296 \<le> c \<and> c \<le> 56319"

definition isLowSurrogate :: "nat \<Rightarrow> bool" where
  "isLowSurrogate c \<longleftrightarrow> 56320 \<le> c \<and> c \<le> 57343"

fun utf8RoundTrip :: "jsstring \<Rightarrow> jsstring" where
  "utf8RoundTrip [] = []"
| "utf8RoundTrip [c] = (if isHighSurrogate c \<or> isLowSurrogate c then [65533] else [c])"
| "utf8RoundTrip (c # d # rest) =
     (if isHighSurrogate c \<and> isLowSurrogate d then c # d # utf8RoundTrip rest
      else if isHighSurrogate c \<or> isLowSurrogate c then 65533 # utf8RoundTrip (d # rest)
      else c # utf8RoundTrip (d # rest))"

text \<open>
  A value that the generator writes and the parser reads back unchanged: not empty,
  free of semicolons, double quotes and line feeds, with no white space at either end,
  and with every surrogate paired.
\<close>

definition plainField :: "jsstring \<Rightarrow> bool" where
  "plainField s \<longleftrightarrow>
     s \<noteq> [] \<and> SEMICOLON \<notin> set s \<and> DQUOTE \<notin> set s \<and> NEWLINE \<notin> set s \<and>
     \<not> isWhiteSpace (hd s) \<and> \<not> isWhiteSpace (last s) \<and> utf8RoundTrip s = s"

section \<open>Natural file sorter\<close>

text \<open>
  \<open>path.extname\<close> and \<open>path.basename\<close> of Node (POSIX flavour). Both look at the last
  segment of the path: trailing slashes are skipped, and the segment runs back to the
  previous slash. The extension starts at the last dot of the segment, unless that dot is
  the segment's first character or the segment is \<open>..\<close>.
\<close>

definition lastSegment :: "jsstring \<Rightarrow> jsstring" where
  "lastSegment p =
     rev (takeWhile (\<lambda>c. c \<noteq> SLASH) (dropWhile (\<lambda>c. c = SLASH) (rev p)))"

definition extname :: "jsstring \<Rightarrow> jsstring" where
  "extname p =
     (let name = lastSegment p;
          afterDot = takeWhile (\<lambda>c. c \<noteq> DOT) (rev name)
      in if DOT \<notin> set name then []
         else if length afterDot + 1 = length name then []
         else if name = [DOT, DOT] then []
         else DOT # rev afterDot)"

definition basename :: "jsstring \<Rightarrow> jsstring \<Rightarrow> jsstring" where
  "basename p suffix =
     (let name = lastSegment p in
      if suffix \<noteq> [] \<and> length suffix \<le> length p then
        (if suffix = p then []
         else if endsWith name suffix \<and> name \<noteq> suffix
           then take (length name - length suffix) name
         else name)
      else name)"

text \<open>
  JavaScript numbers, as far as the sorter needs them: \<open>NaN\<close> and the integers.
  \<open>parseInt\<close> yields the integer itself whenever its magnitude is at most
  \<open>2^53\<close>, where the double that JavaScript stores is exact; \<open>isSafeInteger\<close> is
  \<open>Number.isSafeInteger\<close>, a magnitude of at most \<open>2^53 - 1\<close>.
\<close>

datatype number = NaN | Number int

definition isNaN :: "number \<Rightarrow> bool" where
  "isNaN x \<longleftrightarrow> x = NaN"

definition isSafeInteger :: "number \<Rightarrow> bool" where
  "isSafeInteger x = (case x of NaN \<Rightarrow> False | Number n \<Rightarrow> \<bar>n\<bar> \<le> 2 ^ 53 - 1)"

definition isRadixDigit :: "nat \<Rightarrow> nat \<Rightarrow> bool" where
  "isRadixDigit R c \<longleftrightarrow>
     (48 \<le> c \<and> c \<le> 57) \<or> (R = 16 \<and> ((97 \<le> c \<and> c \<le> 102) \<or> (65 \<le> c \<and> c \<le> 70)))"

definition digitValue :: "nat \<Rightarrow> nat" where
  "digitValue c = (if c \<le> 57 then c - 48 else if 97 \<le> c then c - 87 else c - 55)"

text \<open>
  \<open>parseInt(string)\<close> with no radix: leading white space is skipped, then an optional
  sign, then an optional \<open>0x\<close> or \<open>0X\<close> (which selects radix 16), then the longest run
  of digits; with no digit the result is \<open>NaN\<close>. Whatever follows the digits is ignored.
\<close>

definition parseInt :: "jsstring \<Rightarrow> number" where
  "parseInt inputString =
     (let S = dropWhile isWhiteSpace inputString;
          sign = (case S of c # _ \<Rightarrow> if c = 45 then - 1 else 1 | [] \<Rightarrow> (1::int));
          S1 = (case S of c # r \<Rightarrow> if c = 45 \<or> c = 43 then r else S | [] \<Rightarrow> S);
          hex = (case S1 of a # b # _ \<Rightarrow> a = 48 \<and> (b = 120 \<or> b = 88) | _ \<Rightarrow> False);
          R = (if hex then 16 else 10);
          S2 = (if hex then drop 2 S1 else S1);
          Z = takeWhile (isRadixDigit R) S2
      in if Z = [] then NaN
         else Number (sign * int (foldl (\<lambda>v c. v * R + digitValue c) 0 Z)))"

text \<open>
  The comparator of \<open>sortFilesNumerically\<close> (the same text in all five classes).
  \<open>localeCompare\<close> is the host's \<open>String.prototype.localeCompare\<close>; what it returns
  depends on the collation data of the JavaScript engine, so it is a parameter here.
  A comparator returns a number of which only the sign is used.
\<close>

definition compareFiles :: "(jsstring \<Rightarrow> jsstring \<Rightarrow> int) \<Rightarrow> jsstring \<Rightarrow> jsstring \<Rightarrow> int" where
  "compareFiles localeCompare a b =
     (let numA = parseInt (basename a (extname a));
          numB = parseInt (basename b (extname b))
      in if isNaN numA \<or> isNaN numB then localeCompare a b
         else (case (numA, numB) of
                 (Number x, Number y) \<Rightarrow> x - y
               | _ \<Rightarrow> localeCompare a b))"

text \<open>
  \<open>Array.prototype.sort(comparefn)\<close>. ECMAScript fixes the result for a consistent
  comparator: it is the stable ordering by the comparator. \<open>sortArray\<close> is the
  stable sort by insertion, which takes the elements from the left and puts each before
  the first one already placed that it is smaller than. For a consistent comparator
  that is the array every host returns; for a comparator that is not consistent the
  standard leaves the order open, and the host may return another one.
\<close>

fun insertBy :: "('a \<Rightarrow> 'a \<Rightarrow> int) \<Rightarrow> 'a \<Rightarrow> 'a list \<Rightarrow> 'a list" where
  "insertBy comparefn x [] = [x]"
| "insertBy comparefn x (y # ys) =
     (if comparefn x y < 0 then x # y # ys else y # insertBy comparefn x ys)"

definition sortArray :: "('a \<Rightarrow> 'a \<Rightarrow> int) \<Rightarrow> 'a list \<Rightarrow> 'a list" where
  "sortArray comparefn xs = foldl (\<lambda>sorted x. insertBy comparefn x sorted) [] xs"

definition sortFilesNumerically ::
  "(jsstring \<Rightarrow> jsstring \<Rightarrow> int) \<Rightarrow> jsstring list \<Rightarrow> jsstring list" where
  "sortFilesNumerically localeCompare files = sortArray (compareFiles localeCompare) files"

definition stemNumber :: "jsstring \<Rightarrow> number" where
  "stemNumber file = parseInt (basename file (extname file))"

definition stemValue :: "jsstring \<Rightarrow> int" where
  "stemValue file = (case stemNumber file of Number n \<Rightarrow> n | NaN \<Rightarrow> 0)"

text \<open>
  The comparison by code units, which takes no locale into account: the first position
  where the strings differ decides, and a proper prefix comes first. The result is
  negative, zero or positive.
\<close>

fun codeUnitCompare :: "jsstring \<Rightarrow> jsstring \<Rightarrow> int" where
  "codeUnitCompare [] [] = 0"
| "codeUnitCompare [] (y # ys) = - 1"
| "codeUnitCompare (x # xs) [] = 1"
| "codeUnitCompare (x # xs) (y # ys) =
     (if x < y then - 1 else if y < x then 1 else codeUnitCompare xs ys)"

text \<open>
  \<open>localeCompare\<close> itself is not code of this repository. \<open>rootCollation\<close> gives
  the result of the default (root) collation of the ICU library, which Node uses for
  \<open>localeCompare\<close>, on strings made of ASCII letters, digits and dots; it serves to run
  the comparator on concrete file names. Two such strings are compared first without
  regard to case, a dot before any digit and a digit before any letter; if that finds no
  difference, case decides, lower case first.
\<close>

definition primaryWeight :: "nat \<Rightarrow> nat" where
  "primaryWeight c =
     (if 97 \<le> c \<and> c \<le> 122 then 2000 + (c - 97)
      else if 65 \<le> c \<and> c \<le> 90 then 2000 + (c - 65)
      else if 48 \<le> c \<and> c \<le> 57 then 1000 + (c - 48)
      else c)"

definition caseWeight :: "nat \<Rightarrow> nat" where
  "caseWeight c = (if 65 \<le> c \<and> c \<le> 90 then 1 else 0)"

definition rootCollation :: "jsstring \<Rightarrow> jsstring \<Rightarrow> int" where
  "rootCollation a b =
     (let primary = codeUnitCompare (map primaryWeight a) (map primaryWeight b) in
      if primary \<noteq> 0 then primary
      else codeUnitCompare (map caseWeight a) (map caseWeight b))"

section \<open>EPUB navigation (toc.ncx)\<close>

text \<open>\<open>String(n)\<close> for a non-negative integer, and \<open>padStart\<close>.\<close>

fun numberToString :: "nat \<Rightarrow> jsstring" where
  "numberToString n =
     (if n < 10 then [48 + n] else numberToString (n div 10) @ [48 + n mod 10])"

declare numberToString.simps [simp del]

definition padStart :: "jsstring \<Rightarrow> nat \<Rightarrow> nat \<Rightarrow> jsstring" where
  "padStart s targetLength fill = replicate (targetLength - length s) fill @ s"

text \<open>
  The objects of \<open>imageList\<close>. \<open>copyImagesToEpub\<close> creates them without
  \<open>htmlFile\<close>, which \<open>createHtmlPages\<close> sets afterwards; an unset property prints as
  \<open>undefined\<close> in a template. The merge converter adds \<open>originalInfo\<close>, the object
  that \<open>collectAllImages\<close> built for the image.
\<close>

record imageInfo =
  path :: jsstring
  filename :: jsstring
  folderName :: jsstring
  folderIndex :: nat
  imageIndex :: nat
  totalInFolder :: nat

record epubImage =
  epubFilename :: jsstring
  imageId :: jsstring
  mediaType :: jsstring
  pageNumber :: nat
  htmlFile :: "jsstring option"

record mergedImage = epubImage +
  originalInfo :: imageInfo

definition template :: "jsstring option \<Rightarrow> jsstring" where
  "template v = (case v of None \<Rightarrow> js ''undefined'' | Some s \<Rightarrow> s)"

definition mediaTypeOf :: "jsstring \<Rightarrow> jsstring" where
  "mediaTypeOf ext =
     (if ext = js ''.png'' then js ''image/png''
      else if ext = js ''.gif'' then js ''image/gif''
      else if ext = js ''.bmp'' then js ''image/bmp''
      else if ext = js ''.webp'' then js ''image/webp''
      else js ''image/jpeg'')"

text \<open>\<open>ImageToEpubConverter\<close>: image names and page names are padded to three digits.\<close>

definition copyImagesToEpub :: "jsstring list \<Rightarrow> epubImage list" where
  "copyImagesToEpub imagePaths =
     map (\<lambda>(i, imagePath).
            let ext = toLowerCase (extname imagePath) in
            \<lparr>epubFilename = js ''image_'' @ padStart (numberToString (i + 1)) 3 48 @ ext,
             imageId = js ''img'' @ numberToString (i + 1),
             mediaType = mediaTypeOf ext,
             pageNumber = i + 1,
             htmlFile = None\<rparr>)
         (enumerate 0 imagePaths)"

definition createHtmlPages :: "epubImage list \<Rightarrow> epubImage list" where
  "createHtmlPages imageList =
     map (\<lambda>image. image\<lparr>htmlFile :=
            Some (js ''page_'' @ padStart (numberToString (pageNumber image)) 3 48 @ js ''.xhtml'')\<rparr>)
         imageList"

text \<open>
  The navigation file. \<open>createTocNcx\<close> fills a template and writes the result to
  \<open>OEBPS/toc.ncx\<close>. The record holds what goes into the holes of the template: the
  \<open>content\<close> attribute of each \<open>meta\<close> element of the head, the title, and the text
  \<open>navPoints\<close> that the loop accumulates and that is put between \<open><navMap>\<close> and
  \<open></navMap>\<close>; \<open>tocNcx\<close> is the file. Every string goes into the text as it is:
  nothing is escaped. The templates are given line by line, \<open>textLine s\<close> being \<open>s\<close>
  with the line feed that ends it. \<open>Pagina\<close> is the label prefix, whose second letter
  is U+00E1.
\<close>

definition textLine :: "jsstring \<Rightarrow> jsstring" where
  "textLine s = s @ [NEWLINE]"

record ncx =
  uid :: jsstring
  depth :: jsstring
  totalPageCount :: jsstring
  maxPageNumber :: jsstring
  docTitle :: jsstring
  navMap :: jsstring

definition tocNcx :: "ncx \<Rightarrow> jsstring" where
  "tocNcx t =
     textLine (js ''<?xml version=\"1.0\" encoding=\"utf-8\"?>'') @
     textLine (js ''<!DOCTYPE ncx PUBLIC \"-//NISO//DTD ncx 2005-1//EN\" \"http://www.daisy.org/z3986/2005/ncx-2005-1.dtd\">'') @
     textLine (js ''<ncx xmlns=\"http://www.daisy.org/z3986/2005/ncx/\" version=\"2005-1\">'') @
     textLine (js ''  <head>'') @
     textLine (js ''    <meta name=\"dtb:uid\" content=\"'' @ uid t @ js ''\"/>'') @
     textLine (js ''    <meta name=\"dtb:depth\" content=\"'' @ depth t @ js ''\"/>'') @
     textLine (js ''    <meta name=\"dtb:totalPageCount\" content=\"'' @ totalPageCount t @ js ''\"/>'') @
     textLine (js ''    <meta name=\"dtb:maxPageNumber\" content=\"'' @ maxPageNumber t @ js ''\"/>'') @
     textLine (js ''  </head>'') @
     textLine (js ''  <docTitle>'') @
     textLine (js ''    <text>'' @ docTitle t @ js ''</text>'') @
     textLine (js ''  </docTitle>'') @
     textLine (js ''  <navMap>'') @
     navMap t @
     textLine (js ''  </navMap>'') @
     js ''</ncx>''"

definition Pagina :: "nat \<Rightarrow> jsstring" where
  "Pagina n = js ''P'' @ [225] @ js ''gina '' @ numberToString n"

text \<open>The template literal of the loop of \<open>ImageToEpubConverter.createTocNcx\<close>.\<close>

definition navPoint :: "epubImage \<Rightarrow> jsstring" where
  "navPoint im =
     textLine (js ''    <navPoint id=\"navpoint-'' @ numberToString (pageNumber im) @
             js ''\" playOrder=\"'' @ numberToString (pageNumber im) @ js ''\">'') @
     textLine (js ''      <navLabel>'') @
     textLine (js ''        <text>'' @ Pagina (pageNumber im) @ js ''</text>'') @
     textLine (js ''      </navLabel>'') @
     textLine (js ''      <content src=\"text/'' @ template (htmlFile im) @ js ''\"/>'') @
     textLine (js ''    </navPoint>'')"

definition createTocNcx :: "epubImage list \<Rightarrow> jsstring \<Rightarrow> jsstring \<Rightarrow> ncx" where
  "createTocNcx imageList title uuid =
     \<lparr>uid = uuid,
      depth = js ''1'',
      totalPageCount = js ''0'',
      maxPageNumber = js ''0'',
      docTitle = title,
      navMap = concat (map navPoint imageList)\<rparr>"

text \<open>\<open>MergeEpubConverter\<close>: the same steps, padded to four digits, over the collected images.\<close>

definition imagesInfo :: "jsstring \<Rightarrow> jsstring \<Rightarrow> nat \<Rightarrow> jsstring list \<Rightarrow> imageInfo list" where
  "imagesInfo name dir i sortedFiles =
     map (\<lambda>(index, file).
            \<lparr>path = dir @ [SLASH] @ file,
             filename = file,
             folderName = name,
             folderIndex = i + 1,
             imageIndex = index + 1,
             totalInFolder = length sortedFiles\<rparr>)
         (enumerate 0 sortedFiles)"

definition merge_copyImagesToEpub :: "imageInfo list \<Rightarrow> mergedImage list" where
  "merge_copyImagesToEpub allImages =
     map (\<lambda>(i, info).
            let ext = toLowerCase (extname (path info)) in
            \<lparr>epubFilename = js ''image_'' @ padStart (numberToString (i + 1)) 4 48 @ ext,
             imageId = js ''img'' @ numberToString (i + 1),
             mediaType = mediaTypeOf ext,
             pageNumber = i + 1,
             htmlFile = None,
             originalInfo = info\<rparr>)
         (enumerate 0 allImages)"

definition merge_createHtmlPages :: "mergedImage list \<Rightarrow> mergedImage list" where
  "merge_createHtmlPages imageList =
     map (\<lambda>image. image\<lparr>htmlFile :=
            Some (js ''page_'' @ padStart (numberToString (pageNumber image)) 4 48 @ js ''.xhtml'')\<rparr>)
         imageList"

text \<open>
  The merge converter's \<open>createTocNcx\<close> has three template literals: the opening of a
  folder entry, a page entry, and the closing tag of a folder entry.
\<close>

definition folderOpening :: "nat \<Rightarrow> nat \<Rightarrow> jsstring \<Rightarrow> jsstring option \<Rightarrow> jsstring" where
  "folderOpening folderNavPoint pageOrder name htmlFile' =
     textLine (js ''    <navPoint id=\"folder-'' @ numberToString folderNavPoint @
             js ''\" playOrder=\"'' @ numberToString pageOrder @ js ''\">'') @
     textLine (js ''      <navLabel>'') @
     textLine (js ''        <text>'' @ name @ js ''</text>'') @
     textLine (js ''      </navLabel>'') @
     textLine (js ''      <content src=\"text/'' @ template htmlFile' @ js ''\"/>'')"

definition pageNavPoint :: "nat \<Rightarrow> mergedImage \<Rightarrow> jsstring" where
  "pageNavPoint pageOrder folderImg =
     textLine (js ''      <navPoint id=\"page-'' @ numberToString (pageNumber folderImg) @
             js ''\" playOrder=\"'' @ numberToString pageOrder @ js ''\">'') @
     textLine (js ''        <navLabel>'') @
     textLine (js ''          <text>'' @ Pagina (imageIndex (originalInfo folderImg)) @ js ''</text>'') @
     textLine (js ''        </navLabel>'') @
     textLine (js ''        <content src=\"text/'' @ template (htmlFile folderImg) @ js ''\"/>'') @
     textLine (js ''      </navPoint>'')"

definition folderClosing :: jsstring where
  "folderClosing = textLine (js ''    </navPoint>'')"

text \<open>
  The \<open>for\<close> loop over the images still to visit, with its four variables. When the
  folder name of the image \<open>im\<close> differs from \<open>currentFolder\<close>, the loop appends the
  opening of a folder entry, then one page entry for every image of the whole list that
  carries that folder name, then the closing tag. \<open>pageOrder\<close> is incremented before
  each page and once more after the folder. The loop compares and filters by
  \<open>folderName\<close>; it never reads \<open>folderIndex\<close>.
\<close>

fun mergeTocLoop ::
  "mergedImage list \<Rightarrow> mergedImage list \<Rightarrow> jsstring \<Rightarrow> nat \<Rightarrow> nat \<Rightarrow> jsstring \<Rightarrow> jsstring" where
  "mergeTocLoop imageList [] currentFolder folderNavPoint pageOrder navPoints = navPoints"
| "mergeTocLoop imageList (im # rest) currentFolder folderNavPoint pageOrder navPoints =
     (let folderInfo = originalInfo im in
      if folderName folderInfo \<noteq> currentFolder then
        let folderImages =
              filter (\<lambda>img. folderName (originalInfo img) = folderName folderInfo) imageList;
            pages =
              concat (map (\<lambda>(i, folderImg). pageNavPoint (pageOrder + 1 + i) folderImg)
                          (enumerate 0 folderImages))
        in mergeTocLoop imageList rest (folderName folderInfo) (folderNavPoint + 1)
             (pageOrder + length folderImages + 1)
             (navPoints
                @ folderOpening folderNavPoint pageOrder (folderName folderInfo) (htmlFile im)
                @ pages
                @ folderClosing)
      else mergeTocLoop imageList rest currentFolder folderNavPoint pageOrder navPoints)"

definition merge_createTocNcx :: "mergedImage list \<Rightarrow> jsstring \<Rightarrow> jsstring \<Rightarrow> ncx" where
  "merge_createTocNcx imageList title uuid =
     \<lparr>uid = uuid,
      depth = js ''2'',
      totalPageCount = numberToString (length imageList),
      maxPageNumber = numberToString (length imageList),
      docTitle = title,
      navMap = mergeTocLoop imageList imageList [] 1 1 []\<rparr>"

text \<open>
  The image list of a merged EPUB, from the folders that \<open>collectAllImages\<close> kept:
  for each, its name, its path, its index in the CSV and its sorted image files.
\<close>

definition mergedImageList :: "(jsstring \<times> jsstring \<times> nat \<times> jsstring list) list \<Rightarrow> mergedImage list" where
  "mergedImageList folders =
     merge_createHtmlPages (merge_copyImagesToEpub
       (concat (map (\<lambda>(name, dir, i, sortedFiles). imagesInfo name dir i sortedFiles) folders)))"

section \<open>The file system and the runs of the converters\<close>

text \<open>
  What a run reads and changes. \<open>dirs\<close> gives the directories with the names that
  \<open>readdir\<close> lists, \<open>files\<close> the regular files with their text; paths are the
  strings the program passes, relative to the working directory. \<open>zipInstalled\<close>
  says whether the \<open>zip\<close> command that \<open>createEpubFile\<close> spawns is there and works.
  \<open>created\<close> collects the documents written, each with its output path and the
  image paths of its pages in order; \<open>console\<close> collects what \<open>console.warn\<close> and
  \<open>console.error\<close> print (the \<open>console.log\<close> progress lines are left out).
\<close>

datatype message =
    EntryFailed jsstring error
  | NoImagesWarning jsstring
  | Fatal error

record world =
  dirs :: "jsstring \<Rightarrow> jsstring list option"
  files :: "jsstring \<Rightarrow> jsstring option"
  zipInstalled :: bool
  created :: "(jsstring \<times> jsstring list) list"
  console :: "message list"

definition access :: "world \<Rightarrow> jsstring \<Rightarrow> bool" where
  "access w p \<longleftrightarrow> files w p \<noteq> None \<or> dirs w p \<noteq> None"

definition readCsvFile :: "world \<Rightarrow> jsstring \<Rightarrow> error + entry list" where
  "readCsvFile w csvPath =
     (case files w csvPath of
        None \<Rightarrow> Inl (CsvReadError (IOError csvPath))
      | Some content \<Rightarrow> readCsvContent content)"

text \<open>
  \<open>validateFolder\<close>: \<open>fsPromises.stat\<close> fails with \<open>ENOENT\<close> for a path that names
  neither a directory nor a file, which the code reports as folder not found. Another
  failure of \<open>stat\<close>, such as \<open>ENOTDIR\<close> for a path that leads through a regular
  file, the code throws again as it is; the file system here has no such path.
\<close>

definition validateFolder :: "world \<Rightarrow> jsstring \<Rightarrow> error + unit" where
  "validateFolder w folderPath =
     (if dirs w folderPath \<noteq> None then Inr ()
      else if files w folderPath \<noteq> None then Inl (NotAFolder folderPath)
      else Inl (FolderNotFound folderPath))"

definition supportedExtensions :: "jsstring list" where
  "supportedExtensions =
     [js ''.jpg'', js ''.jpeg'', js ''.png'', js ''.gif'', js ''.bmp'', js ''.webp'']"

definition isImageFile :: "jsstring \<Rightarrow> bool" where
  "isImageFile file \<longleftrightarrow> toLowerCase (extname file) \<in> set supportedExtensions"

text \<open>
  \<open>readImageFiles\<close> of \<open>ImageToPdfConverter\<close> and \<open>ImageToEpubConverter\<close> throws when
  no image is left after the filter; the one of the two merge converters returns the
  empty list.
\<close>

definition readImageFiles :: "world \<Rightarrow> jsstring \<Rightarrow> error + jsstring list" where
  "readImageFiles w folderPath =
     (case dirs w folderPath of
        None \<Rightarrow> Inl (ReadFolderError (IOError folderPath))
      | Some listing \<Rightarrow>
          let imageFiles = filter isImageFile listing in
          if length imageFiles = 0 then Inl (ReadFolderError NoImagesFound)
          else Inr imageFiles)"

definition merge_readImageFiles :: "world \<Rightarrow> jsstring \<Rightarrow> error + jsstring list" where
  "merge_readImageFiles w folderPath =
     (case dirs w folderPath of
        None \<Rightarrow> Inl (ReadFolderError (IOError folderPath))
      | Some listing \<Rightarrow> Inr (filter isImageFile listing))"

text \<open>
  A call \<open>this.m(files)\<close>. Of the properties that a run calls on a list of file names,
  the classes define \<open>sortFilesNumerically\<close> and no other; calling a property that
  is not defined throws a \<open>TypeError\<close>.
\<close>

definition invokeSorter ::
  "string \<Rightarrow> (jsstring \<Rightarrow> jsstring \<Rightarrow> int) \<Rightarrow> jsstring list \<Rightarrow> error + jsstring list" where
  "invokeSorter m localeCompare fileNames =
     (if m = ''sortFilesNumerically'' then Inr (sortFilesNumerically localeCompare fileNames)
      else Inl (NotAFunction m))"

text \<open>The loop that checks \<open>fsPromises.access\<close> on every image path.\<close>

fun firstMissing :: "world \<Rightarrow> jsstring list \<Rightarrow> error + unit" where
  "firstMissing w [] = Inr ()"
| "firstMissing w (imagePath # rest) =
     (if access w imagePath then firstMissing w rest else Inl (FileNotFound imagePath))"

text \<open>
  \<open>path.join\<close> and \<open>path.resolve\<close>, without the normalisation of \<open>.\<close> and
  \<open>..\<close> segments; a path that starts with a slash is absolute and is not resolved
  against the directory before it.
\<close>

definition joinPath :: "jsstring \<Rightarrow> jsstring \<Rightarrow> jsstring" where
  "joinPath a b = a @ [SLASH] @ b"

definition resolveIn :: "jsstring \<Rightarrow> jsstring \<Rightarrow> jsstring" where
  "resolveIn base p = (if startsWith p [SLASH] then p else base @ [SLASH] @ p)"

definition dirnameOf :: "jsstring \<Rightarrow> jsstring" where
  "dirnameOf p = rev (drop 1 (dropWhile (\<lambda>c. c \<noteq> SLASH) (rev p)))"

definition parentExists :: "world \<Rightarrow> jsstring \<Rightarrow> bool" where
  "parentExists w p \<longleftrightarrow> dirnameOf p = [] \<or> dirs w (dirnameOf p) \<noteq> None"

text \<open>\<open>fsPromises.mkdir(d, { recursive: true })\<close> for a one-segment path.\<close>

definition mkdirRecursive :: "world \<Rightarrow> jsstring \<Rightarrow> error + world" where
  "mkdirRecursive w d =
     (if dirs w d \<noteq> None then Inr w
      else if files w d \<noteq> None then Inl (IOError d)
      else Inr (w\<lparr>dirs := (dirs w)(d \<mapsto> [])\<rparr>))"

text \<open>
  \<open>createPdf\<close> and \<open>createMergedPdf\<close>: \<open>fs.createWriteStream(outputPath)\<close> reports an
  error, which rejects the promise, when the directory of the output path does not
  exist. A failure to place one image is caught inside the loop and the page stays.
  \<open>createEpub\<close> and \<open>createMergedEpub\<close>: the images are copied into a temporary
  directory, then \<open>zip\<close> writes the output file; the temporary directory is removed
  in every case.
\<close>

definition createPdf :: "world \<Rightarrow> jsstring list \<Rightarrow> jsstring \<Rightarrow> error + world" where
  "createPdf w imagePaths outputPath =
     (if parentExists w outputPath
      then Inr (w\<lparr>created := created w @ [(outputPath, imagePaths)]\<rparr>)
      else Inl (IOError outputPath))"

definition createEpub :: "world \<Rightarrow> jsstring list \<Rightarrow> jsstring \<Rightarrow> error + world" where
  "createEpub w imagePaths outputPath =
     (case filter (\<lambda>p. files w p = None) imagePaths of
        p # _ \<Rightarrow> Inl (IOError p)
      | [] \<Rightarrow>
          if zipInstalled w \<and> parentExists w outputPath
          then Inr (w\<lparr>created := created w @ [(outputPath, imagePaths)]\<rparr>)
          else Inl ZipFailed)"

definition withExtension :: "jsstring \<Rightarrow> jsstring \<Rightarrow> jsstring" where
  "withExtension name ext = (if endsWith name ext then name else name @ ext)"

definition entryFailed :: "jsstring \<Rightarrow> world \<Rightarrow> error \<Rightarrow> world" where
  "entryFailed name w e = w\<lparr>console := console w @ [EntryFailed name e]\<rparr>"

definition exitWith :: "world \<Rightarrow> error \<Rightarrow> nat \<times> world" where
  "exitWith w e = (1, w\<lparr>console := console w @ [Fatal e]\<rparr>)"

datatype params = CsvMode jsstring | SingleMode jsstring jsstring

definition validateArguments :: "jsstring list \<Rightarrow> error + params" where
  "validateArguments args =
     (if length args < 3 then Inl Usage
      else if length args = 3 then Inr (CsvMode (args ! 2))
      else
        let folderPath = args ! 2; outputName = args ! 3 in
        if outputName = [] then Inl OutputNameRequired
        else Inr (SingleMode folderPath outputName))"

definition merge_validateArguments :: "jsstring list \<Rightarrow> error + jsstring \<times> jsstring" where
  "merge_validateArguments args =
     (if length args < 4 then Inl Usage
      else
        let csvFile = args ! 2; outputName = args ! 3 in
        if outputName = [] then Inl OutputNameRequired
        else Inr (csvFile, outputName))"

subsection \<open>\<open>ImageToPdfConverter\<close> (single folder and CSV batch)\<close>

text \<open>
  One turn of the loop of \<open>processCsvEntries\<close>: the body of the \<open>try\<close>, and the
  \<open>catch\<close> that prints the error and lets the loop go on. The output name is
  \<open>pdf/\<close> followed by the entry's name.
\<close>

definition pdf_processEntry :: "(jsstring \<Rightarrow> jsstring \<Rightarrow> int) \<Rightarrow> world \<Rightarrow> entry \<Rightarrow> world" where
  "pdf_processEntry localeCompare w e =
     (case validateFolder w (caminho e) of
        Inl err \<Rightarrow> entryFailed (nome e) w err
      | Inr _ \<Rightarrow>
     (case readImageFiles w (caminho e) of
        Inl err \<Rightarrow> entryFailed (nome e) w err
      | Inr imageFiles \<Rightarrow>
     (case invokeSorter ''sortFilesNumerically'' localeCompare imageFiles of
        Inl err \<Rightarrow> entryFailed (nome e) w err
      | Inr sortedFiles \<Rightarrow>
     (let imagePaths = map (joinPath (caminho e)) sortedFiles in
      case firstMissing w imagePaths of
        Inl err \<Rightarrow> entryFailed (nome e) w err
      | Inr _ \<Rightarrow>
     (let outputFileName = js ''pdf/'' @ withExtension (nome e) (js ''.pdf'') in
      case createPdf w imagePaths outputFileName of
        Inl err \<Rightarrow> entryFailed (nome e) w err
      | Inr w' \<Rightarrow> w')))))"

definition pdf_processCsvEntries ::
  "(jsstring \<Rightarrow> jsstring \<Rightarrow> int) \<Rightarrow> world \<Rightarrow> entry list \<Rightarrow> world" where
  "pdf_processCsvEntries localeCompare w entries = foldl (pdf_processEntry localeCompare) w entries"

definition pdf_run :: "(jsstring \<Rightarrow> jsstring \<Rightarrow> int) \<Rightarrow> world \<Rightarrow> jsstring list \<Rightarrow> nat \<times> world" where
  "pdf_run localeCompare w args =
     (case validateArguments args of
        Inl err \<Rightarrow> exitWith w err
      | Inr (CsvMode csvFile) \<Rightarrow>
          if \<not> access w csvFile then exitWith w (CsvNotFound csvFile)
          else (case readCsvFile w csvFile of
                  Inl err \<Rightarrow> exitWith w err
                | Inr entries \<Rightarrow> (0, pdf_processCsvEntries localeCompare w entries))
      | Inr (SingleMode folderPath outputName) \<Rightarrow>
     (case validateFolder w folderPath of
        Inl err \<Rightarrow> exitWith w err
      | Inr _ \<Rightarrow>
     (case readImageFiles w folderPath of
        Inl err \<Rightarrow> exitWith w err
      | Inr imageFiles \<Rightarrow>
     (case invokeSorter ''sortFilesNumerically'' localeCompare imageFiles of
        Inl err \<Rightarrow> exitWith w err
      | Inr sortedFiles \<Rightarrow>
     (let imagePaths = map (joinPath folderPath) sortedFiles in
      case firstMissing w imagePaths of
        Inl err \<Rightarrow> exitWith w err
      | Inr _ \<Rightarrow>
     (let outputFileName = withExtension outputName (js ''.pdf'') in
      case createPdf w imagePaths outputFileName of
        Inl err \<Rightarrow> exitWith w err
      | Inr w' \<Rightarrow> (0, w')))))))"

subsection \<open>\<open>ImageToEpubConverter\<close> (single folder and CSV batch)\<close>

text \<open>
  The loop body of \<open>processCsvEntries\<close> creates the \<open>epub\<close> directory before it
  builds the document.
\<close>

definition epub_processEntry :: "(jsstring \<Rightarrow> jsstring \<Rightarrow> int) \<Rightarrow> world \<Rightarrow> entry \<Rightarrow> world" where
  "epub_processEntry localeCompare w e =
     (case validateFolder w (caminho e) of
        Inl err \<Rightarrow> entryFailed (nome e) w err
      | Inr _ \<Rightarrow>
     (case readImageFiles w (caminho e) of
        Inl err \<Rightarrow> entryFailed (nome e) w err
      | Inr imageFiles \<Rightarrow>
     (case invokeSorter ''sortFilesNumerically'' localeCompare imageFiles of
        Inl err \<Rightarrow> entryFailed (nome e) w err
      | Inr sortedFiles \<Rightarrow>
     (let imagePaths = map (joinPath (caminho e)) sortedFiles in
      case firstMissing w imagePaths of
        Inl err \<Rightarrow> entryFailed (nome e) w err
      | Inr _ \<Rightarrow>
     (let outputFileName = js ''epub/'' @ withExtension (nome e) (js ''.epub'') in
      case mkdirRecursive w (js ''epub'') of
        Inl err \<Rightarrow> entryFailed (nome e) w err
      | Inr w1 \<Rightarrow>
     (case createEpub w1 imagePaths outputFileName of
        Inl err \<Rightarrow> entryFailed (nome e) w1 err
      | Inr w2 \<Rightarrow> w2))))))"

definition epub_processCsvEntries ::
  "(jsstring \<Rightarrow> jsstring \<Rightarrow> int) \<Rightarrow> world \<Rightarrow> entry list \<Rightarrow> world" where
  "epub_processCsvEntries localeCompare w entries = foldl (epub_processEntry localeCompare) w entries"

text \<open>
  \<open>run\<close>. In single-folder mode the sorting step is written
  \<open>this.sortFilesNumericamente(imageFiles)\<close>.
\<close>

definition epub_run :: "(jsstring \<Rightarrow> jsstring \<Rightarrow> int) \<Rightarrow> world \<Rightarrow> jsstring list \<Rightarrow> nat \<times> world" where
  "epub_run localeCompare w args =
     (case validateArguments args of
        Inl err \<Rightarrow> exitWith w err
      | Inr (CsvMode csvFile) \<Rightarrow>
          if \<not> access w csvFile then exitWith w (CsvNotFound csvFile)
          else (case readCsvFile w csvFile of
                  Inl err \<Rightarrow> exitWith w err
                | Inr entries \<Rightarrow> (0, epub_processCsvEntries localeCompare w entries))
      | Inr (SingleMode folderPath outputName) \<Rightarrow>
     (case validateFolder w folderPath of
        Inl err \<Rightarrow> exitWith w err
      | Inr _ \<Rightarrow>
     (case readImageFiles w folderPath of
        Inl err \<Rightarrow> exitWith w err
      | Inr imageFiles \<Rightarrow>
     (case invokeSorter ''sortFilesNumericamente'' localeCompare imageFiles of
        Inl err \<Rightarrow> exitWith w err
      | Inr sortedFiles \<Rightarrow>
     (let imagePaths = map (joinPath folderPath) sortedFiles in
      case firstMissing w imagePaths of
        Inl err \<Rightarrow> exitWith w err
      | Inr _ \<Rightarrow>
     (let outputPath = resolveIn (js ''epub'') (withExtension outputName (js ''.epub'')) in
      case mkdirRecursive w (js ''epub'') of
        Inl err \<Rightarrow> exitWith w err
      | Inr w1 \<Rightarrow>
     (case createEpub w1 imagePaths outputPath of
        Inl err \<Rightarrow> exitWith w1 err
      | Inr w2 \<Rightarrow> (0, w2))))))))"

subsection \<open>\<open>MergePdfConverter\<close> and \<open>MergeEpubConverter\<close>\<close>

text \<open>
  One turn of the loop of \<open>collectAllImages\<close> (the same text in both classes), for
  the entry of index \<open>i\<close>: a folder without images is reported with \<open>console.warn\<close>
  and skipped by \<open>continue\<close>; an error is caught and printed with \<open>console.error\<close>.
\<close>

definition collectFolder ::
  "(jsstring \<Rightarrow> jsstring \<Rightarrow> int) \<Rightarrow> nat \<Rightarrow> world \<times> imageInfo list \<Rightarrow> entry \<Rightarrow> world \<times> imageInfo list" where
  "collectFolder localeCompare i state e =
     (let w = fst state; allImages = snd state in
      case validateFolder w (caminho e) of
        Inl err \<Rightarrow> (entryFailed (nome e) w err, allImages)
      | Inr _ \<Rightarrow>
     (case merge_readImageFiles w (caminho e) of
        Inl err \<Rightarrow> (entryFailed (nome e) w err, allImages)
      | Inr imageFiles \<Rightarrow>
          if length imageFiles = 0
          then (w\<lparr>console := console w @ [NoImagesWarning (caminho e)]\<rparr>, allImages)
          else
     (case invokeSorter ''sortFilesNumerically'' localeCompare imageFiles of
        Inl err \<Rightarrow> (entryFailed (nome e) w err, allImages)
      | Inr sortedFiles \<Rightarrow>
     (let infos = imagesInfo (nome e) (caminho e) i sortedFiles in
      case firstMissing w (map path infos) of
        Inl err \<Rightarrow> (entryFailed (nome e) w err, allImages)
      | Inr _ \<Rightarrow> (w, allImages @ infos)))))"

fun collectLoop ::
  "(jsstring \<Rightarrow> jsstring \<Rightarrow> int) \<Rightarrow> nat \<Rightarrow> world \<times> imageInfo list \<Rightarrow> entry list \<Rightarrow> world \<times> imageInfo list" where
  "collectLoop localeCompare i state [] = state"
| "collectLoop localeCompare i state (e # es) =
     collectLoop localeCompare (i + 1) (collectFolder localeCompare i state e) es"

definition collectAllImages ::
  "(jsstring \<Rightarrow> jsstring \<Rightarrow> int) \<Rightarrow> world \<Rightarrow> entry list \<Rightarrow> world \<times> (error + imageInfo list)" where
  "collectAllImages localeCompare w entries =
     (let state = collectLoop localeCompare 0 (w, []) entries in
      if length (snd state) = 0 then (fst state, Inl NoImagesInAnyFolder)
      else (fst state, Inr (snd state)))"

definition mergePdf_run :: "(jsstring \<Rightarrow> jsstring \<Rightarrow> int) \<Rightarrow> world \<Rightarrow> jsstring list \<Rightarrow> nat \<times> world" where
  "mergePdf_run localeCompare w args =
     (case merge_validateArguments args of
        Inl err \<Rightarrow> exitWith w err
      | Inr (csvFile, outputName) \<Rightarrow>
          if \<not> access w csvFile then exitWith w (CsvNotFound csvFile)
          else
     (case readCsvFile w csvFile of
        Inl err \<Rightarrow> exitWith w err
      | Inr entries \<Rightarrow>
     (case collectAllImages localeCompare w entries of
        (w1, Inl err) \<Rightarrow> exitWith w1 err
      | (w1, Inr allImages) \<Rightarrow>
     (let outputPath = resolveIn (js ''pdf'') (withExtension outputName (js ''.pdf'')) in
      case mkdirRecursive w1 (js ''pdf'') of
        Inl err \<Rightarrow> exitWith w1 err
      | Inr w2 \<Rightarrow>
     (case createPdf w2 (map path allImages) outputPath of
        Inl err \<Rightarrow> exitWith w2 err
      | Inr w3 \<Rightarrow> (0, w3))))))"

definition mergeEpub_run :: "(jsstring \<Rightarrow> jsstring \<Rightarrow> int) \<Rightarrow> world \<Rightarrow> jsstring list \<Rightarrow> nat \<times> world" where
  "mergeEpub_run localeCompare w args =
     (case merge_validateArguments args of
        Inl err \<Rightarrow> exitWith w err
      | Inr (csvFile, outputName) \<Rightarrow>
          if \<not> access w csvFile then exitWith w (CsvNotFound csvFile)
          else
     (case readCsvFile w csvFile of
        Inl err \<Rightarrow> exitWith w err
      | Inr entries \<Rightarrow>
     (case collectAllImages localeCompare w entries of
        (w1, Inl err) \<Rightarrow> exitWith w1 err
      | (w1, Inr allImages) \<Rightarrow>
     (let outputPath = resolveIn (js ''epub'') (withExtension outputName (js ''.epub'')) in
      case mkdirRecursive w1 (js ''epub'') of
        Inl err \<Rightarrow> exitWith w1 err
      | Inr w2 \<Rightarrow>
     (case createEpub w2 (map path allImages) outputPath of
        Inl err \<Rightarrow> exitWith w2 err
      | Inr w3 \<Rightarrow> (0, w3))))))"

section \<open>Auxiliary definitions for the proofs\<close>

text \<open>The row of an entry as the generator writes it when nothing has to be replaced.\<close>

definition csvLine :: "entry \<Rightarrow> jsstring" where
  "csvLine f = nome f @ SEMICOLON # caminho f"


text \<open>A text given by its lines.\<close>

definition textLines :: "jsstring list \<Rightarrow> jsstring" where
  "textLines ls = concat (map textLine ls)"


text \<open>Two worlds that differ at most in what was printed.\<close>

definition sameFiles :: "world \<Rightarrow> world \<Rightarrow> bool" where
  "sameFiles w w' \<longleftrightarrow>
     dirs w' = dirs w \<and> files w' = files w \<and> zipInstalled w' = zipInstalled w \<and> created w' = created w"


section \<open>Example inputs\<close>

text \<open>
  Folder \<open>A\<close> with two images and folder \<open>B\<close> with one; two folders that are
  both named \<open>A\<close>; and three folders of which the first and the last are named \<open>A\<close>.
\<close>

definition foldersAB :: "(jsstring \<times> jsstring \<times> nat \<times> jsstring list) list" where
  "foldersAB = [(js ''A'', js ''/a'', 0, [js ''1.jpg'', js ''2.jpg'']), (js ''B'', js ''/b'', 1, [js ''1.png''])]"

definition foldersAA :: "(jsstring \<times> jsstring \<times> nat \<times> jsstring list) list" where
  "foldersAA = [(js ''A'', js ''/a'', 0, [js ''1.jpg'']), (js ''A'', js ''/c'', 1, [js ''1.png''])]"

definition foldersABA :: "(jsstring \<times> jsstring \<times> nat \<times> jsstring list) list" where
  "foldersABA =
     [(js ''A'', js ''/a'', 0, [js ''1.jpg'', js ''2.jpg'']), (js ''B'', js ''/b'', 1, [js ''1.png'']),
      (js ''A'', js ''/c'', 2, [js ''1.gif''])]"


text \<open>
  A working directory with neither \<open>pdf\<close> nor \<open>epub\<close> in it, a folder with three
  images and a text file, a folder without images, and a CSV file that lists the two
  folders.
\<close>

definition exampleWorld :: world where
  "exampleWorld =
     \<lparr>dirs = [js ''/imgs'' \<mapsto> [js ''10.jpg'', js ''2.PNG'', js ''readme.txt'', js ''1.webp''],
              js ''/empty'' \<mapsto> [js ''notes.txt'']],
      files = [js ''/imgs/10.jpg'' \<mapsto> [], js ''/imgs/2.PNG'' \<mapsto> [], js ''/imgs/1.webp'' \<mapsto> [],
               js ''list.csv'' \<mapsto> js ''nome;caminho'' @ [NEWLINE] @ js ''E;/empty'' @ [NEWLINE]
                                      @ js ''doc;/imgs'' @ [NEWLINE]],
      zipInstalled = True,
      created = [],
      console = []\<rparr>"


section \<open>Properties of the CSV line parser\<close>

lemma parseCsvLoop_no_quote:
  "\<forall>f \<in> set result. DQUOTE \<notin> set f \<Longrightarrow> DQUOTE \<notin> set current \<Longrightarrow>
   \<forall>f \<in> set (parseCsvLoop line result current q). DQUOTE \<notin> set f"
proof (induction line arbitrary: result current q)
  case Nil
  then show ?case by simp
next
  case (Cons c cs)
  show ?case
  proof (cases "c = DQUOTE")
    case True
    then show ?thesis using Cons.IH [OF Cons.prems] by simp
  next
    case noquote: False
    show ?thesis
    proof (cases "c = SEMICOLON \<and> \<not> q")
      case True
      have "\<forall>f \<in> set (result @ [current]). DQUOTE \<notin> set f"
        using Cons.prems by simp
      from Cons.IH [OF this, of "[]" q] noquote True show ?thesis by simp
    next
      case False
      have "DQUOTE \<notin> set (current @ [c])"
        using Cons.prems noquote by simp
      from Cons.IH [OF Cons.prems(1) this, of q] noquote False show ?thesis
        by (cases q) simp_all
    qed
  qed
qed

lemma parseCsvLoop_in_quotes:
  "DQUOTE \<notin> set v \<Longrightarrow>
   parseCsvLoop (v @ rest) result current True = parseCsvLoop rest result (current @ v) True"
  by (induction v arbitrary: current) auto

text \<open>
  C9. No field returned by \<open>parseCsvLine\<close> contains a double quote, whatever the line:
  a quote only flips \<open>inQuotes\<close> and is never appended to \<open>current\<close>. In particular a
  value written between double quotes comes back without them, semicolons inside it
  included.
\<close>

theorem parseCsvLine_drops_quotes:
  "(\<forall>f \<in> set (parseCsvLine line). DQUOTE \<notin> set f) \<and>
   (DQUOTE \<notin> set v \<longrightarrow> parseCsvLine ([DQUOTE] @ v @ [DQUOTE]) = [v])"
proof
  show "\<forall>f \<in> set (parseCsvLine line). DQUOTE \<notin> set f"
    unfolding parseCsvLine_def by (rule parseCsvLoop_no_quote) simp_all
next
  show "DQUOTE \<notin> set v \<longrightarrow> parseCsvLine ([DQUOTE] @ v @ [DQUOTE]) = [v]"
  proof
    assume v: "DQUOTE \<notin> set v"
    have "parseCsvLine ([DQUOTE] @ v @ [DQUOTE]) = parseCsvLoop (v @ [DQUOTE]) [] [] True"
      by (simp add: parseCsvLine_def)
    also have "\<dots> = parseCsvLoop [DQUOTE] [] ([] @ v) True"
      using v by (rule parseCsvLoop_in_quotes)
    also have "\<dots> = [v]" by simp
    finally show "parseCsvLine ([DQUOTE] @ v @ [DQUOTE]) = [v]" .
  qed
qed

theorem parseCsvLine_drops_quotes_witness:
  "parseCsvLine (js ''\"a;b\";\"/p q\"'') = [js ''a;b'', js ''/p q''] \<and>
   DQUOTE \<notin> set (js ''a;b'') \<and> DQUOTE \<notin> set (js ''/p q'') \<and>
   parseCsvLine ([DQUOTE] @ js ''a;b'' @ [DQUOTE]) = [js ''a;b'']"
  using parseCsvLine_drops_quotes [of "js ''\"a;b\";\"/p q\"''" "js ''a;b''"]
  by (simp add: js_def parseCsvLine_def)

section \<open>Properties of the CSV entry parser\<close>

lemma split_newline_not_empty: "split_newline s \<noteq> []"
  by (induction s) (auto split: list.splits)

lemma readCsvContent_never_CsvEmpty: "readCsvContent content \<noteq> Inl (CsvReadError CsvEmpty)"
  by (simp add: readCsvContent_def Let_def split_newline_not_empty)

text \<open>
  Every entry that \<open>readCsvFile\<close> returns has a name and a path that are not empty:
  a line with an empty field is skipped.
\<close>

lemma csvLoop_fields_not_empty:
  "\<forall>e \<in> set entries. nome e \<noteq> [] \<and> caminho e \<noteq> [] \<Longrightarrow>
   \<forall>e \<in> set (csvLoop i ls entries). nome e \<noteq> [] \<and> caminho e \<noteq> []"
proof (induction ls arbitrary: i entries)
  case Nil
  then show ?case by simp
next
  case (Cons l ls)
  let ?n = "trim (parseCsvLine (trim l) ! 0)" and ?p = "trim (parseCsvLine (trim l) ! 1)"
  have skip: "\<forall>e \<in> set (csvLoop (i + 1) ls entries). nome e \<noteq> [] \<and> caminho e \<noteq> []"
    using Cons.prems by (rule Cons.IH)
  have push: "\<forall>e \<in> set (csvLoop (i + 1) ls (entries @ [\<lparr>nome = ?n, caminho = ?p\<rparr>])).
                nome e \<noteq> [] \<and> caminho e \<noteq> []"
    if "?n \<noteq> []" "?p \<noteq> []"
    using Cons.prems that by (intro Cons.IH) simp
  show ?case
    using skip push by (simp add: Let_def)
qed

lemma readCsvContent_fields_not_empty:
  "readCsvContent content = Inr entries \<Longrightarrow>
   \<forall>e \<in> set entries. nome e \<noteq> [] \<and> caminho e \<noteq> []"
  using csvLoop_fields_not_empty [of "[]" 0 "split_newline (trim content)"]
  by (auto simp: readCsvContent_def Let_def split: if_splits)


text \<open>
  C3. \<open>readCsvFile\<close> has two failures of its own, \<open>CsvEmpty\<close> for a file without
  lines and \<open>CsvNoValidEntries\<close> for a file of which every line was skipped. On the
  code an empty file, and a file of white space only, end in \<open>CsvNoValidEntries\<close>:
  \<open>split\<close> returns the one-element array for the empty string, so the test
  \<open>lines.length === 0\<close> in front of \<open>CsvEmpty\<close> never holds, whatever the content.
\<close>

theorem readCsvContent_empty_file:
  "readCsvContent (js '''') = Inl (CsvReadError CsvNoValidEntries) \<and>
   readCsvContent (js ''  '' @ [NEWLINE]) = Inl (CsvReadError CsvNoValidEntries) \<and>
   (\<forall>content. readCsvContent content \<noteq> Inl (CsvReadError CsvEmpty))"
  by (simp add: readCsvContent_never_CsvEmpty)
     (simp add: readCsvContent_def js_def trim_def isWhiteSpace_def)


section \<open>Writing a CSV file and reading it back\<close>

lemma foldl_append_concat:
  "foldl (\<lambda>acc x. acc @ g x) init xs = init @ concat (map g xs)"
  by (induction xs arbitrary: init) simp_all

lemma replaceSemicolons_plain: "SEMICOLON \<notin> set s \<Longrightarrow> replaceSemicolons s = s"
  unfolding replaceSemicolons_def by (induction s) auto

lemma surrogate_not_replacement:
  "isHighSurrogate c \<or> isLowSurrogate c \<Longrightarrow> c \<noteq> 65533"
  by (auto simp: isHighSurrogate_def isLowSurrogate_def)

lemma utf8RoundTrip_append:
  "utf8RoundTrip a = a \<Longrightarrow> utf8RoundTrip b = b \<Longrightarrow> utf8RoundTrip (a @ b) = a @ b"
proof (induction a rule: utf8RoundTrip.induct)
  case 1
  then show ?case by simp
next
  case (2 c)
  then have c: "\<not> isHighSurrogate c" "\<not> isLowSurrogate c"
    using surrogate_not_replacement [of c] by (auto split: if_splits)
  show ?case
  proof (cases b)
    case Nil
    with c show ?thesis by simp
  next
    case (Cons d r)
    with c "2.prems"(2) show ?thesis by simp
  qed
next
  case (3 c d rest)
  show ?case
  proof (cases "isHighSurrogate c \<and> isLowSurrogate d")
    case True
    with "3.prems"(1) have "utf8RoundTrip rest = rest" by simp
    with "3.IH"(1) True "3.prems"(2) have "utf8RoundTrip (rest @ b) = rest @ b" by simp
    with True show ?thesis by simp
  next
    case False
    with "3.prems"(1) have c: "\<not> (isHighSurrogate c \<or> isLowSurrogate c)"
      using surrogate_not_replacement [of c] by (auto split: if_splits)
    with False "3.prems"(1) have "utf8RoundTrip (d # rest) = d # rest" by (simp split: if_splits)
    with "3.IH"(3) False c "3.prems"(2) have "utf8RoundTrip ((d # rest) @ b) = (d # rest) @ b"
      by simp
    with False c show ?thesis by simp
  qed
qed

lemma trim_plain:
  "s \<noteq> [] \<Longrightarrow> \<not> isWhiteSpace (hd s) \<Longrightarrow> \<not> isWhiteSpace (last s) \<Longrightarrow> trim s = s"
proof -
  assume s: "s \<noteq> []" and h: "\<not> isWhiteSpace (hd s)" and l: "\<not> isWhiteSpace (last s)"
  from s h have "dropWhile isWhiteSpace s = s" by (cases s) simp_all
  moreover from s l have "dropWhile isWhiteSpace (rev s) = rev s"
    by (cases "rev s") (simp_all add: hd_rev [symmetric])
  ultimately show ?thesis by (simp add: trim_def)
qed

lemma trim_strip_newline:
  assumes "b \<noteq> []" "\<not> isWhiteSpace (hd b)" "\<not> isWhiteSpace (last b)"
  shows "trim (b @ [NEWLINE]) = b"
proof -
  from assms(1,2) have "dropWhile isWhiteSpace (b @ [NEWLINE]) = b @ [NEWLINE]"
    by (cases b) simp_all
  moreover from assms(1,3) have "dropWhile isWhiteSpace (rev b) = rev b"
    by (cases "rev b") (simp_all add: hd_rev [symmetric])
  then have "dropWhile isWhiteSpace (rev (b @ [NEWLINE])) = rev b"
    by (simp add: isWhiteSpace_def)
  ultimately show ?thesis by (simp add: trim_def)
qed

lemma split_newline_single: "NEWLINE \<notin> set l \<Longrightarrow> split_newline l = [l]"
  by (induction l) auto

lemma split_newline_line:
  "NEWLINE \<notin> set l \<Longrightarrow> split_newline (l @ NEWLINE # rest) = l # split_newline rest"
  by (induction l) auto

lemma parseCsvLoop_plain:
  "DQUOTE \<notin> set v \<Longrightarrow> SEMICOLON \<notin> set v \<Longrightarrow>
   parseCsvLoop (v @ rest) result current False = parseCsvLoop rest result (current @ v) False"
  by (induction v arbitrary: current) auto

lemma parseCsvLine_two_fields:
  "DQUOTE \<notin> set n \<Longrightarrow> SEMICOLON \<notin> set n \<Longrightarrow> DQUOTE \<notin> set p \<Longrightarrow> SEMICOLON \<notin> set p \<Longrightarrow>
   parseCsvLine (n @ SEMICOLON # p) = [n, p]"
  using parseCsvLoop_plain [of n "SEMICOLON # p" "[]" "[]"] parseCsvLoop_plain [of p "[]" "[n]" "[]"]
  by (simp add: parseCsvLine_def)

lemma csvRow_plain:
  "plainField (nome f) \<Longrightarrow> plainField (caminho f) \<Longrightarrow> csvRow f = csvLine f @ [NEWLINE]"
  by (simp add: csvRow_def csvLine_def plainField_def replaceSemicolons_plain)

lemma csvLine_props:
  assumes "plainField (nome f)" "plainField (caminho f)"
  shows "NEWLINE \<notin> set (csvLine f)" and "trim (csvLine f) = csvLine f" and "csvLine f \<noteq> []"
    and "parseCsvLine (csvLine f) = [nome f, caminho f]"
    and "utf8RoundTrip (csvLine f @ [NEWLINE]) = csvLine f @ [NEWLINE]"
    and "last (csvLine f) = last (caminho f)"
proof -
  from assms show "NEWLINE \<notin> set (csvLine f)" by (simp add: csvLine_def plainField_def)
  from assms have "hd (csvLine f) = hd (nome f)" and l: "last (csvLine f) = last (caminho f)"
    and ne: "csvLine f \<noteq> []"
    by (simp_all add: csvLine_def plainField_def)
  with assms show "trim (csvLine f) = csvLine f"
    by (intro trim_plain) (simp_all add: plainField_def)
  from ne show "csvLine f \<noteq> []" .
  from assms show "parseCsvLine (csvLine f) = [nome f, caminho f]"
    unfolding csvLine_def by (intro parseCsvLine_two_fields) (simp_all add: plainField_def)
  have semi: "utf8RoundTrip [SEMICOLON] = [SEMICOLON]" and nl: "utf8RoundTrip [NEWLINE] = [NEWLINE]"
    by (simp_all add: isHighSurrogate_def isLowSurrogate_def)
  from assms have "utf8RoundTrip (nome f) = nome f" "utf8RoundTrip (caminho f) = caminho f"
    by (simp_all add: plainField_def)
  then have "utf8RoundTrip (nome f @ [SEMICOLON] @ caminho f @ [NEWLINE])
               = nome f @ [SEMICOLON] @ caminho f @ [NEWLINE]"
    by (intro utf8RoundTrip_append semi nl)
  then show "utf8RoundTrip (csvLine f @ [NEWLINE]) = csvLine f @ [NEWLINE]"
    by (simp add: csvLine_def)
  from l show "last (csvLine f) = last (caminho f)" .
qed

lemma utf8RoundTrip_rows:
  "\<forall>f \<in> set fs. plainField (nome f) \<and> plainField (caminho f) \<Longrightarrow>
   utf8RoundTrip (concat (map (\<lambda>f. csvLine f @ [NEWLINE]) fs))
     = concat (map (\<lambda>f. csvLine f @ [NEWLINE]) fs)"
proof (induction fs)
  case Nil
  then show ?case by simp
next
  case (Cons f fs)
  then have "utf8RoundTrip (csvLine f @ [NEWLINE]) = csvLine f @ [NEWLINE]"
    by (simp add: csvLine_props(5))
  moreover from Cons have "utf8RoundTrip (concat (map (\<lambda>f. csvLine f @ [NEWLINE]) fs))
     = concat (map (\<lambda>f. csvLine f @ [NEWLINE]) fs)" by simp
  ultimately have "utf8RoundTrip ((csvLine f @ [NEWLINE]) @ concat (map (\<lambda>f. csvLine f @ [NEWLINE]) fs))
     = (csvLine f @ [NEWLINE]) @ concat (map (\<lambda>f. csvLine f @ [NEWLINE]) fs)"
    by (rule utf8RoundTrip_append)
  then show ?case by simp
qed

lemma split_newline_rows:
  "\<forall>f \<in> set fs. plainField (nome f) \<and> plainField (caminho f) \<Longrightarrow>
   plainField (nome g) \<Longrightarrow> plainField (caminho g) \<Longrightarrow>
   split_newline (concat (map (\<lambda>f. csvLine f @ [NEWLINE]) fs) @ csvLine g)
     = map csvLine fs @ [csvLine g]"
proof (induction fs)
  case Nil
  then show ?case by (simp add: split_newline_single csvLine_props(1))
next
  case (Cons f fs)
  then have "NEWLINE \<notin> set (csvLine f)" by (simp add: csvLine_props(1))
  then have "split_newline (csvLine f @ NEWLINE # (concat (map (\<lambda>f. csvLine f @ [NEWLINE]) fs) @ csvLine g))
     = csvLine f # split_newline (concat (map (\<lambda>f. csvLine f @ [NEWLINE]) fs) @ csvLine g)"
    by (rule split_newline_line)
  with Cons show ?case by simp
qed

lemma csvLoop_plain_lines:
  "0 < i \<Longrightarrow> \<forall>f \<in> set fs. plainField (nome f) \<and> plainField (caminho f) \<Longrightarrow>
   csvLoop i (map csvLine fs) entries = entries @ fs"
proof (induction fs arbitrary: i entries)
  case Nil
  then show ?case by simp
next
  case (Cons f fs)
  then have f: "plainField (nome f)" "plainField (caminho f)" by simp_all
  then have tn: "trim (nome f) = nome f" and tc: "trim (caminho f) = caminho f"
    and ne: "nome f \<noteq> []" "caminho f \<noteq> []"
    by (simp_all add: plainField_def trim_plain)
  have "csvLoop i (csvLine f # map csvLine fs) entries
          = csvLoop (i + 1) (map csvLine fs) (entries @ [\<lparr>nome = nome f, caminho = caminho f\<rparr>])"
    using Cons.prems(1) csvLine_props(2,3,4) [OF f] tn tc ne by (simp add: Let_def)
  also have "\<dots> = (entries @ [\<lparr>nome = nome f, caminho = caminho f\<rparr>]) @ fs"
    using Cons.prems(2) by (intro Cons.IH) simp_all
  finally show ?case by simp
qed

lemma header_props:
  "trim (js ''nome;caminho'') = js ''nome;caminho''"
  "includes_str (toLowerCase (js ''nome;caminho'')) (js ''nome'')"
  "includes_str (toLowerCase (js ''nome;caminho'')) (js ''caminho'')"
  "NEWLINE \<notin> set (js ''nome;caminho'')"
  "utf8RoundTrip (js ''nome;caminho'' @ [NEWLINE]) = js ''nome;caminho'' @ [NEWLINE]"
  by (simp_all add: js_def trim_def isWhiteSpace_def toLowerCase_def lowerUnit_def
        isHighSurrogate_def isLowSurrogate_def)


text \<open>
  C4, as amended. For every list of folder records that is not empty and whose names and
  paths are plain (not empty, free of semicolons, double quotes and line feeds, without
  white space at either end, every surrogate paired), the file that \<open>generateCSV\<close>
  writes is read back by \<open>readCsvFile\<close> as exactly these records. Commas are among the
  characters a plain value may hold, and they come back as they were written.
\<close>

theorem csv_round_trip_plain:
  assumes ne: "folders \<noteq> []"
    and plain: "\<forall>f \<in> set folders. plainField (nome f) \<and> plainField (caminho f)"
  shows "readCsvContent (utf8RoundTrip (generateCSV folders)) = Inr folders"
proof -
  let ?H = "js ''nome;caminho''"
  let ?rows = "\<lambda>fs. concat (map (\<lambda>f. csvLine f @ [NEWLINE]) fs)"
  from ne obtain fs g where folders: "folders = fs @ [g]" by (cases folders rule: rev_cases) auto
  with plain have pfs: "\<forall>f \<in> set fs. plainField (nome f) \<and> plainField (caminho f)"
    and pg: "plainField (nome g)" "plainField (caminho g)" by simp_all
  have "map csvRow folders = map (\<lambda>f. csvLine f @ [NEWLINE]) folders"
    using plain by (intro map_cong) (simp_all add: csvRow_plain)
  then have "concat (map csvRow folders) = ?rows folders"
    by (rule arg_cong)
  then have gen: "generateCSV folders = (?H @ [NEWLINE]) @ ?rows folders"
    by (simp only: generateCSV_def foldl_append_concat)
  have "utf8RoundTrip ((?H @ [NEWLINE]) @ ?rows folders) = (?H @ [NEWLINE]) @ ?rows folders"
    using header_props(5) utf8RoundTrip_rows [OF plain] by (rule utf8RoundTrip_append)
  with gen have rt: "utf8RoundTrip (generateCSV folders) = (?H @ [NEWLINE]) @ ?rows folders"
    by simp
  let ?body = "?H @ NEWLINE # ?rows fs @ csvLine g"
  have content: "(?H @ [NEWLINE]) @ ?rows folders = ?body @ [NEWLINE]"
    by (simp add: folders)
  have "last ?body = last (caminho g)"
    using csvLine_props(3,6) [OF pg] by simp
  then have "\<not> isWhiteSpace (last ?body)" using pg(2) by (simp add: plainField_def)
  moreover have "\<not> isWhiteSpace (hd ?body)" by (simp add: js_def isWhiteSpace_def)
  moreover have "?body \<noteq> []" by (simp add: js_def)
  ultimately have trim: "trim (?body @ [NEWLINE]) = ?body" by (intro trim_strip_newline)
  have "split_newline ?body = ?H # split_newline (?rows fs @ csvLine g)"
    using header_props(4) by (rule split_newline_line)
  also have "\<dots> = ?H # map csvLine folders"
    using split_newline_rows [OF pfs pg] by (simp add: folders)
  finally have lines: "split_newline ?body = ?H # map csvLine folders" .
  have "csvLoop 0 (?H # map csvLine folders) [] = csvLoop 1 (map csvLine folders) []"
    using header_props(1,2,3) by (simp add: js_def)
  also have "\<dots> = [] @ folders" using plain by (intro csvLoop_plain_lines) simp_all
  finally have loop: "csvLoop 0 (?H # map csvLine folders) [] = folders" by simp
  have "readCsvContent (?body @ [NEWLINE]) = Inr folders"
    unfolding readCsvContent_def trim lines Let_def loop using ne by simp
  then show ?thesis by (simp only: rt content)
qed


theorem csv_round_trip_plain_witness:
  "[\<lparr>nome = js ''Report, Q1'', caminho = js ''/data''\<rparr>] \<noteq> [] \<and>
   plainField (js ''Report, Q1'') \<and> plainField (js ''/data'') \<and>
   readCsvContent (utf8RoundTrip (generateCSV [\<lparr>nome = js ''Report, Q1'', caminho = js ''/data''\<rparr>]))
     = Inr [\<lparr>nome = js ''Report, Q1'', caminho = js ''/data''\<rparr>]"
proof -
  have p: "plainField (js ''Report, Q1'')" "plainField (js ''/data'')"
    by (simp_all add: plainField_def js_def isWhiteSpace_def isHighSurrogate_def isLowSurrogate_def)
  then have "\<forall>f \<in> set [\<lparr>nome = js ''Report, Q1'', caminho = js ''/data''\<rparr>].
               plainField (nome f) \<and> plainField (caminho f)"
    by simp
  with csv_round_trip_plain [of "[\<lparr>nome = js ''Report, Q1'', caminho = js ''/data''\<rparr>]"] p
  show ?thesis by blast
qed

text \<open>
  C4 as stated fails for a record with a semicolon in its name: the generator writes no
  quotes and replaces the semicolon by a comma, so the name \<open>a;b\<close> is read back as
  \<open>a,b\<close>.
\<close>

theorem csv_round_trip_semicolon_counterexample:
  "readCsvContent (utf8RoundTrip (generateCSV [\<lparr>nome = js ''a;b'', caminho = js ''/x''\<rparr>]))
     = Inr [\<lparr>nome = js ''a,b'', caminho = js ''/x''\<rparr>] \<and>
   readCsvContent (utf8RoundTrip (generateCSV [\<lparr>nome = js ''a;b'', caminho = js ''/x''\<rparr>]))
     \<noteq> Inr [\<lparr>nome = js ''a;b'', caminho = js ''/x''\<rparr>]"
  by (simp add: generateCSV_def csvRow_def replaceSemicolons_def js_def isHighSurrogate_def
        isLowSurrogate_def readCsvContent_def trim_def isWhiteSpace_def toLowerCase_def
        lowerUnit_def parseCsvLine_def)

section \<open>Properties of the natural file sorter\<close>

lemma mset_insertBy: "mset (insertBy cmp x ys) = add_mset x (mset ys)"
  by (induction ys) simp_all

lemma set_insertBy: "set (insertBy cmp x ys) = insert x (set ys)"
  by (induction ys) auto

lemma sorted_insertBy:
  assumes "\<forall>y \<in> set ys. (cmp x y < 0) = (key x < key y)"
    and "sorted (map key ys)"
  shows "sorted (map (key :: 'a \<Rightarrow> int) (insertBy cmp x ys))"
  using assms
proof (induction ys)
  case Nil
  then show ?case by simp
next
  case (Cons y ys)
  show ?case
  proof (cases "cmp x y < 0")
    case True
    with Cons.prems show ?thesis by auto
  next
    case False
    with Cons.prems have "key y \<le> key x" by simp
    moreover from Cons have "sorted (map key (insertBy cmp x ys))" by simp
    ultimately show ?thesis using False Cons.prems(2) by (auto simp: set_insertBy)
  qed
qed

lemma filter_insertBy:
  assumes "\<forall>y \<in> set ys. (cmp x y < 0) = (key x < key y)"
    and "sorted (map key ys)"
  shows "filter (\<lambda>f. (key :: 'a \<Rightarrow> int) f = k) (insertBy cmp x ys)
           = filter (\<lambda>f. key f = k) ys @ (if key x = k then [x] else [])"
  using assms
proof (induction ys)
  case Nil
  then show ?case by simp
next
  case (Cons y ys)
  show ?case
  proof (cases "cmp x y < 0")
    case True
    with Cons.prems have less: "key x < key y" by simp
    with Cons.prems(2) have "\<forall>z \<in> set (y # ys). key x < key z" by auto
    then have "key x = k \<Longrightarrow> filter (\<lambda>f. key f = k) (y # ys) = []"
      by (auto simp: filter_empty_conv)
    with True show ?thesis by (cases "key x = k") simp_all
  next
    case False
    with Cons show ?thesis by simp
  qed
qed

lemma sortArray_loop:
  assumes "\<forall>x \<in> set acc \<union> set xs. \<forall>y \<in> set acc \<union> set xs. (cmp x y < 0) = (key x < key y)"
    and "sorted (map key acc)"
  shows "sorted (map (key :: 'a \<Rightarrow> int) (foldl (\<lambda>sorted x. insertBy cmp x sorted) acc xs)) \<and>
         mset (foldl (\<lambda>sorted x. insertBy cmp x sorted) acc xs) = mset acc + mset xs \<and>
         filter (\<lambda>f. key f = k) (foldl (\<lambda>sorted x. insertBy cmp x sorted) acc xs)
           = filter (\<lambda>f. key f = k) acc @ filter (\<lambda>f. key f = k) xs"
  using assms
proof (induction xs arbitrary: acc)
  case Nil
  then show ?case by simp
next
  case (Cons x xs)
  have agree: "\<forall>y \<in> set acc. (cmp x y < 0) = (key x < key y)"
    using Cons.prems(1) by simp
  have s: "sorted (map key (insertBy cmp x acc))"
    using agree Cons.prems(2) by (rule sorted_insertBy)
  have f: "filter (\<lambda>f. key f = k) (insertBy cmp x acc)
             = filter (\<lambda>f. key f = k) acc @ (if key x = k then [x] else [])"
    using agree Cons.prems(2) by (rule filter_insertBy)
  have "\<forall>a \<in> set (insertBy cmp x acc) \<union> set xs. \<forall>b \<in> set (insertBy cmp x acc) \<union> set xs.
          (cmp a b < 0) = (key a < key b)"
    using Cons.prems(1) by (simp add: set_insertBy)
  from Cons.IH [OF this s] show ?case
    by (simp add: f mset_insertBy)
qed

lemma compareFiles_numeric:
  "\<not> isNaN (stemNumber a) \<Longrightarrow> \<not> isNaN (stemNumber b) \<Longrightarrow>
   compareFiles lc a b = stemValue a - stemValue b"
  by (cases "stemNumber a"; cases "stemNumber b")
     (simp_all add: compareFiles_def stemNumber_def stemValue_def isNaN_def)

lemma compareFiles_stems:
  "compareFiles lc a b =
     (case (stemNumber a, stemNumber b) of (Number x, Number y) \<Rightarrow> x - y | _ \<Rightarrow> lc a b)"
  by (simp add: compareFiles_def stemNumber_def isNaN_def Let_def split: number.splits)


lemmas stem_eval = js_def stemNumber_def parseInt_def basename_def extname_def lastSegment_def
  endsWith_def isRadixDigit_def digitValue_def isWhiteSpace_def Let_def

lemma example_stems:
  "stemNumber (js ''10.jpg'') = Number 10"
  "stemNumber (js ''2.png'') = Number 2"
  "stemNumber (js ''1.gif'') = Number 1"
  "stemNumber (js ''1.jpg'') = Number 1"
  "stemNumber (js ''1.png'') = Number 1"
  "stemNumber (js ''a.jpg'') = NaN"
  "stemNumber (js ''B.jpg'') = NaN"
  by (simp_all add: stem_eval)

lemma example_stems2:
  "stemNumber (js ''10.jpg'') = Number 10"
  "stemNumber (js ''2.PNG'') = Number 2"
  "stemNumber (js ''1.webp'') = Number 1"
  by (simp_all add: stem_eval)

lemma example_collation:
  "rootCollation (js ''a.jpg'') (js ''B.jpg'') = - 1"
  "rootCollation (js ''B.jpg'') (js ''a.jpg'') = 1"
  "codeUnitCompare (js ''a.jpg'') (js ''B.jpg'') = 1"
  by (simp_all add: js_def rootCollation_def primaryWeight_def caseWeight_def)

lemma example_sorted:
  "sortFilesNumerically lc [js ''10.jpg'', js ''2.PNG'', js ''1.webp'']
     = [js ''1.webp'', js ''2.PNG'', js ''10.jpg'']"
  by (simp add: sortFilesNumerically_def sortArray_def compareFiles_stems example_stems2)


text \<open>
  C5, as amended. For every list of file names whose stems all parse as integers in the
  range where JavaScript numbers are exact, \<open>sortFilesNumerically\<close> returns the same
  files in ascending order of the stems, not strictly: files with equal stems (such as
  \<open>1.jpg\<close> and \<open>1.png\<close>) stay in the order in which they were listed.
\<close>

theorem sortFilesNumerically_numeric_stems:
  assumes "\<forall>f \<in> set fileNames. isSafeInteger (stemNumber f)"
  shows "sorted (map stemValue (sortFilesNumerically lc fileNames)) \<and>
         mset (sortFilesNumerically lc fileNames) = mset fileNames \<and>
         (\<forall>k. filter (\<lambda>f. stemValue f = k) (sortFilesNumerically lc fileNames)
                = filter (\<lambda>f. stemValue f = k) fileNames)"
proof -
  have num: "\<not> isNaN (stemNumber f)" if "f \<in> set fileNames" for f
    using assms that by (auto simp: isSafeInteger_def isNaN_def split: number.splits)
  have agree: "\<forall>x \<in> set [] \<union> set fileNames. \<forall>y \<in> set [] \<union> set fileNames.
                 (compareFiles lc x y < 0) = (stemValue x < stemValue y)"
    by (simp add: compareFiles_numeric num)
  have "sorted (map stemValue [])" by simp
  from sortArray_loop [OF agree this] show ?thesis
    by (simp add: sortFilesNumerically_def sortArray_def)
qed

theorem sortFilesNumerically_numeric_stems_witness:
  "isSafeInteger (stemNumber (js ''10.jpg'')) \<and> isSafeInteger (stemNumber (js ''2.png'')) \<and>
   isSafeInteger (stemNumber (js ''1.gif'')) \<and>
   sortFilesNumerically rootCollation [js ''10.jpg'', js ''2.png'', js ''1.gif'']
     = [js ''1.gif'', js ''2.png'', js ''10.jpg''] \<and>
   sorted (map stemValue (sortFilesNumerically rootCollation [js ''10.jpg'', js ''2.png'', js ''1.gif'']))"
proof -
  have h: "\<forall>f \<in> set [js ''10.jpg'', js ''2.png'', js ''1.gif'']. isSafeInteger (stemNumber f)"
    by (simp add: example_stems isSafeInteger_def)
  have r: "sortFilesNumerically rootCollation [js ''10.jpg'', js ''2.png'', js ''1.gif'']
     = [js ''1.gif'', js ''2.png'', js ''10.jpg'']"
    by (simp add: sortFilesNumerically_def sortArray_def compareFiles_stems example_stems)
  from sortFilesNumerically_numeric_stems [OF h, of rootCollation] h r show ?thesis
    by simp
qed


text \<open>
  C5 as stated asks for a strictly ascending order. Two files of one folder can have the
  same numeric stem, and then no order of them is strictly ascending.
\<close>

theorem sort_equal_stems_counterexample:
  "stemNumber (js ''1.jpg'') = Number 1 \<and> stemNumber (js ''1.png'') = Number 1 \<and>
   sortFilesNumerically rootCollation [js ''1.jpg'', js ''1.png''] = [js ''1.jpg'', js ''1.png''] \<and>
   \<not> sorted_wrt (<) (map stemValue (sortFilesNumerically rootCollation [js ''1.jpg'', js ''1.png'']))"
  by (simp add: sortFilesNumerically_def sortArray_def compareFiles_stems example_stems stemValue_def)


text \<open>
  C6, as amended. Whenever the stem of either file name fails to parse as an integer, the
  comparator returns what \<open>localeCompare\<close> of the host returns for the two full file
  names. That is a comparison by the collation of the locale, not by code units.
\<close>

theorem compareFiles_fallback:
  "isNaN (stemNumber a) \<or> isNaN (stemNumber b) \<Longrightarrow> compareFiles lc a b = lc a b"
  by (simp add: compareFiles_def stemNumber_def Let_def)

theorem compareFiles_fallback_witness:
  "(isNaN (stemNumber (js ''a.jpg'')) \<or> isNaN (stemNumber (js ''10.jpg''))) \<and>
   compareFiles rootCollation (js ''a.jpg'') (js ''10.jpg'') = rootCollation (js ''a.jpg'') (js ''10.jpg'')"
  using compareFiles_fallback [of "js ''a.jpg''" "js ''10.jpg''" rootCollation]
  by (simp add: example_stems isNaN_def)


text \<open>
  C6 as stated says that the fallback is the code unit order, which puts every capital
  letter before every small letter. With the collation that Node uses, \<open>a.jpg\<close> comes
  before \<open>B.jpg\<close>, while the code unit order puts \<open>B.jpg\<close> first.
\<close>

theorem compareFiles_locale_counterexample:
  "isNaN (stemNumber (js ''a.jpg'')) \<and> isNaN (stemNumber (js ''B.jpg'')) \<and>
   compareFiles rootCollation (js ''a.jpg'') (js ''B.jpg'') < 0 \<and>
   0 < codeUnitCompare (js ''a.jpg'') (js ''B.jpg'') \<and>
   sortFilesNumerically rootCollation [js ''B.jpg'', js ''a.jpg''] = [js ''a.jpg'', js ''B.jpg'']"
  by (simp add: sortFilesNumerically_def sortArray_def compareFiles_stems example_stems
        example_collation isNaN_def)


section \<open>Properties of the navigation files\<close>

lemma js_eq_iff: "js a = js b \<longleftrightarrow> a = b"
  unfolding js_def by (simp add: inj_map_eq_map inj_of_char)

lemma js_empty_iff: "js a = [] \<longleftrightarrow> a = []" "[] = js a \<longleftrightarrow> a = []"
  by (auto simp: js_def)

lemma numberToString_not_empty: "numberToString n \<noteq> []"
  by (subst numberToString.simps) simp

lemma numberToString_zero_iff: "numberToString n = js ''0'' \<longleftrightarrow> n = 0"
proof (cases "n < 10")
  case True
  then show ?thesis by (subst numberToString.simps) (simp add: js_def)
next
  case False
  have "length (numberToString (n div 10) @ [48 + n mod 10]) \<ge> 2"
    using numberToString_not_empty [of "n div 10"]
    by (cases "numberToString (n div 10)") simp_all
  then have "numberToString n \<noteq> js ''0''"
    using False by (subst numberToString.simps) (auto simp: js_def)
  with False show ?thesis by simp
qed


text \<open>
  C10. The navigation file of \<open>ImageToEpubConverter\<close> declares \<open>dtb:totalPageCount\<close>
  and \<open>dtb:maxPageNumber\<close> as \<open>0\<close> for every image list; the one of
  \<open>MergeEpubConverter\<close> declares both as the number of images. For a document with at
  least one image the two therefore differ in both fields.
\<close>

theorem toc_page_count_fields:
  "totalPageCount (createTocNcx imageList title uuid) = js ''0'' \<and>
   maxPageNumber (createTocNcx imageList title uuid) = js ''0'' \<and>
   totalPageCount (merge_createTocNcx mergedList title' uuid') = numberToString (length mergedList) \<and>
   maxPageNumber (merge_createTocNcx mergedList title' uuid') = numberToString (length mergedList) \<and>
   (mergedList \<noteq> [] \<longrightarrow>
      totalPageCount (merge_createTocNcx mergedList title' uuid')
        \<noteq> totalPageCount (createTocNcx imageList title uuid) \<and>
      maxPageNumber (merge_createTocNcx mergedList title' uuid')
        \<noteq> maxPageNumber (createTocNcx imageList title uuid))"
  by (simp add: createTocNcx_def merge_createTocNcx_def numberToString_zero_iff)


lemmas merged_eval = mergedImageList_def merge_createHtmlPages_def merge_copyImagesToEpub_def
  imagesInfo_def merge_createTocNcx_def Let_def

theorem toc_page_count_fields_witness:
  "mergedImageList foldersAB \<noteq> [] \<and>
   totalPageCount (createTocNcx (createHtmlPages (copyImagesToEpub
       [js ''/a/1.jpg'', js ''/a/2.jpg'', js ''/b/1.png''])) (js ''book'') (js ''id'')) = js ''0'' \<and>
   totalPageCount (merge_createTocNcx (mergedImageList foldersAB) (js ''book'') (js ''id'')) = js ''3'' \<and>
   totalPageCount (merge_createTocNcx (mergedImageList foldersAB) (js ''book'') (js ''id''))
     \<noteq> totalPageCount (createTocNcx (createHtmlPages (copyImagesToEpub
           [js ''/a/1.jpg'', js ''/a/2.jpg'', js ''/b/1.png''])) (js ''book'') (js ''id''))"
proof -
  have len: "length (mergedImageList foldersAB) = 3"
    by (simp add: foldersAB_def merged_eval)
  then have ne: "mergedImageList foldersAB \<noteq> []" by auto
  have three: "numberToString 3 = js ''3''"
    by (subst numberToString.simps) (simp add: js_def)
  from toc_page_count_fields [of "createHtmlPages (copyImagesToEpub
         [js ''/a/1.jpg'', js ''/a/2.jpg'', js ''/b/1.png''])" "js ''book''" "js ''id''"
         "mergedImageList foldersAB" "js ''book''" "js ''id''"] ne
  show ?thesis by (simp add: len three) (simp add: js_def)
qed

lemma numberToString_digit: "n < 10 \<Longrightarrow> numberToString n = [48 + n]"
  by (subst numberToString.simps) simp

lemma numberToString_ten: "n = 10 \<Longrightarrow> numberToString n = [49, 48]"
  by (subst numberToString.simps) (simp add: numberToString_digit)

lemma padStart_digit: "padStart [d] 4 48 = [48, 48, 48, d]"
  by (simp add: padStart_def numeral_3_eq_3)

lemma same_lines:
  "a = b \<Longrightarrow> r = r' \<Longrightarrow> textLine a @ r = textLine b @ r'"
  "a = b \<Longrightarrow> textLine a = textLine b"
  by simp_all

lemma split_newline_textLine:
  "NEWLINE \<notin> set l \<Longrightarrow> split_newline (textLine l @ rest) = l # split_newline rest"
  by (simp add: textLine_def split_newline_line)

lemma split_newline_textLines:
  "\<forall>l \<in> set ls. NEWLINE \<notin> set l \<Longrightarrow> split_newline (textLines ls) = ls @ [[]]"
proof (induction ls)
  case Nil
  then show ?case by (simp add: textLines_def)
next
  case (Cons l ls)
  then have "split_newline (textLine l @ textLines ls) = l # split_newline (textLines ls)"
    by (intro split_newline_textLine) simp
  with Cons show ?case by (simp add: textLines_def)
qed

lemma navPoint_lines:
  "\<forall>l \<in> set ls. NEWLINE \<notin> set l \<Longrightarrow>
   filter (\<lambda>l. includes_str l (js ''<navPoint '')) (split_newline (textLines ls))
     = filter (\<lambda>l. includes_str l (js ''<navPoint '')) ls"
  by (simp add: split_newline_textLines js_def)

lemmas toc_values = numberToString_digit numberToString_ten padStart_digit template_def Pagina_def

text \<open>
  The navigation text of the example of the specification: folder \<open>A\<close> with two
  images, then folder \<open>B\<close> with one.
\<close>

lemma merged_toc_text_AB:
  "navMap (merge_createTocNcx (mergedImageList foldersAB) title uuid)
     = textLines
         [js ''    <navPoint id=\"folder-1\" playOrder=\"1\">'',
          js ''      <navLabel>'',
          js ''        <text>A</text>'',
          js ''      </navLabel>'',
          js ''      <content src=\"text/page_0001.xhtml\"/>'',
          js ''      <navPoint id=\"page-1\" playOrder=\"2\">'',
          js ''        <navLabel>'',
          js ''          <text>'' @ Pagina 1 @ js ''</text>'',
          js ''        </navLabel>'',
          js ''        <content src=\"text/page_0001.xhtml\"/>'',
          js ''      </navPoint>'',
          js ''      <navPoint id=\"page-2\" playOrder=\"3\">'',
          js ''        <navLabel>'',
          js ''          <text>'' @ Pagina 2 @ js ''</text>'',
          js ''        </navLabel>'',
          js ''        <content src=\"text/page_0002.xhtml\"/>'',
          js ''      </navPoint>'',
          js ''    </navPoint>'',
          js ''    <navPoint id=\"folder-2\" playOrder=\"4\">'',
          js ''      <navLabel>'',
          js ''        <text>B</text>'',
          js ''      </navLabel>'',
          js ''      <content src=\"text/page_0003.xhtml\"/>'',
          js ''      <navPoint id=\"page-3\" playOrder=\"5\">'',
          js ''        <navLabel>'',
          js ''          <text>'' @ Pagina 1 @ js ''</text>'',
          js ''        </navLabel>'',
          js ''        <content src=\"text/page_0003.xhtml\"/>'',
          js ''      </navPoint>'',
          js ''    </navPoint>'']"
  apply (simp add: foldersAB_def merged_eval textLines_def js_eq_iff js_empty_iff)
  apply (simp only: folderOpening_def pageNavPoint_def folderClosing_def append_assoc)
  apply (intro same_lines)
  apply (simp_all add: toc_values js_def)
  done

text \<open>
  A folder name goes into the label as it is, also when it holds characters that XML
  reserves.
\<close>

lemma merged_toc_name_not_escaped:
  "navMap (merge_createTocNcx
       (mergedImageList [(js ''Tom & Jerry <1>'', js ''/t'', 0, [js ''1.jpg''])]) title uuid)
     = textLines
         [js ''    <navPoint id=\"folder-1\" playOrder=\"1\">'',
          js ''      <navLabel>'',
          js ''        <text>Tom & Jerry <1></text>'',
          js ''      </navLabel>'',
          js ''      <content src=\"text/page_0001.xhtml\"/>'',
          js ''      <navPoint id=\"page-1\" playOrder=\"2\">'',
          js ''        <navLabel>'',
          js ''          <text>'' @ Pagina 1 @ js ''</text>'',
          js ''        </navLabel>'',
          js ''        <content src=\"text/page_0001.xhtml\"/>'',
          js ''      </navPoint>'',
          js ''    </navPoint>'']"
  apply (simp add: merged_eval textLines_def js_eq_iff js_empty_iff)
  apply (simp only: folderOpening_def pageNavPoint_def folderClosing_def append_assoc)
  apply (intro same_lines)
  apply (simp_all add: toc_values js_def)
  done

text \<open>
  The navigation text for the folders \<open>A\<close> (two images), \<open>B\<close> (one image) and
  \<open>A\<close> again (one image).
\<close>

lemma merged_toc_text_ABA:
  "navMap (merge_createTocNcx (mergedImageList foldersABA) title uuid)
     = textLines
         [js ''    <navPoint id=\"folder-1\" playOrder=\"1\">'',
          js ''      <navLabel>'',
          js ''        <text>A</text>'',
          js ''      </navLabel>'',
          js ''      <content src=\"text/page_0001.xhtml\"/>'',
          js ''      <navPoint id=\"page-1\" playOrder=\"2\">'',
          js ''        <navLabel>'',
          js ''          <text>'' @ Pagina 1 @ js ''</text>'',
          js ''        </navLabel>'',
          js ''        <content src=\"text/page_0001.xhtml\"/>'',
          js ''      </navPoint>'',
          js ''      <navPoint id=\"page-2\" playOrder=\"3\">'',
          js ''        <navLabel>'',
          js ''          <text>'' @ Pagina 2 @ js ''</text>'',
          js ''        </navLabel>'',
          js ''        <content src=\"text/page_0002.xhtml\"/>'',
          js ''      </navPoint>'',
          js ''      <navPoint id=\"page-4\" playOrder=\"4\">'',
          js ''        <navLabel>'',
          js ''          <text>'' @ Pagina 1 @ js ''</text>'',
          js ''        </navLabel>'',
          js ''        <content src=\"text/page_0004.xhtml\"/>'',
          js ''      </navPoint>'',
          js ''    </navPoint>'',
          js ''    <navPoint id=\"folder-2\" playOrder=\"5\">'',
          js ''      <navLabel>'',
          js ''        <text>B</text>'',
          js ''      </navLabel>'',
          js ''      <content src=\"text/page_0003.xhtml\"/>'',
          js ''      <navPoint id=\"page-3\" playOrder=\"6\">'',
          js ''        <navLabel>'',
          js ''          <text>'' @ Pagina 1 @ js ''</text>'',
          js ''        </navLabel>'',
          js ''        <content src=\"text/page_0003.xhtml\"/>'',
          js ''      </navPoint>'',
          js ''    </navPoint>'',
          js ''    <navPoint id=\"folder-3\" playOrder=\"7\">'',
          js ''      <navLabel>'',
          js ''        <text>A</text>'',
          js ''      </navLabel>'',
          js ''      <content src=\"text/page_0004.xhtml\"/>'',
          js ''      <navPoint id=\"page-1\" playOrder=\"8\">'',
          js ''        <navLabel>'',
          js ''          <text>'' @ Pagina 1 @ js ''</text>'',
          js ''        </navLabel>'',
          js ''        <content src=\"text/page_0001.xhtml\"/>'',
          js ''      </navPoint>'',
          js ''      <navPoint id=\"page-2\" playOrder=\"9\">'',
          js ''        <navLabel>'',
          js ''          <text>'' @ Pagina 2 @ js ''</text>'',
          js ''        </navLabel>'',
          js ''        <content src=\"text/page_0002.xhtml\"/>'',
          js ''      </navPoint>'',
          js ''      <navPoint id=\"page-4\" playOrder=\"10\">'',
          js ''        <navLabel>'',
          js ''          <text>'' @ Pagina 1 @ js ''</text>'',
          js ''        </navLabel>'',
          js ''        <content src=\"text/page_0004.xhtml\"/>'',
          js ''      </navPoint>'',
          js ''    </navPoint>'']"
  apply (simp add: foldersABA_def merged_eval textLines_def js_eq_iff js_empty_iff)
  apply (simp only: folderOpening_def pageNavPoint_def folderClosing_def append_assoc)
  apply (intro same_lines)
  apply (simp_all add: toc_values js_def)
  done


text \<open>
  C2. The navigation map of a merged EPUB is to have one top-level entry per source
  folder, holding one nested entry per page of that folder, with \<open>playOrder\<close>
  counting the entries. The loop of \<open>createTocNcx\<close> tells folders apart by their names.
  For two CSV rows with the same name \<open>A\<close>, one image each, it writes a single folder
  entry that holds both pages, each labelled page 1. For the rows \<open>A\<close> (two images),
  \<open>B\<close> (one image), \<open>A\<close> (one image) it writes, for each of the two rows named
  \<open>A\<close>, a folder entry with the three pages of both rows: the lines of the text that
  open a \<open>navPoint\<close> element show ten entries for three folders and four pages, with the
  ids \<open>page-1\<close>, \<open>page-2\<close> and \<open>page-4\<close> twice.
\<close>

theorem merged_toc_repeated_folder_name:
  "navMap (merge_createTocNcx (mergedImageList foldersAA) title uuid)
     = textLines
         [js ''    <navPoint id=\"folder-1\" playOrder=\"1\">'',
          js ''      <navLabel>'',
          js ''        <text>A</text>'',
          js ''      </navLabel>'',
          js ''      <content src=\"text/page_0001.xhtml\"/>'',
          js ''      <navPoint id=\"page-1\" playOrder=\"2\">'',
          js ''        <navLabel>'',
          js ''          <text>'' @ Pagina 1 @ js ''</text>'',
          js ''        </navLabel>'',
          js ''        <content src=\"text/page_0001.xhtml\"/>'',
          js ''      </navPoint>'',
          js ''      <navPoint id=\"page-2\" playOrder=\"3\">'',
          js ''        <navLabel>'',
          js ''          <text>'' @ Pagina 1 @ js ''</text>'',
          js ''        </navLabel>'',
          js ''        <content src=\"text/page_0002.xhtml\"/>'',
          js ''      </navPoint>'',
          js ''    </navPoint>''] \<and>
   filter (\<lambda>l. includes_str l (js ''<navPoint '')) (split_newline (navMap (merge_createTocNcx (mergedImageList foldersABA) title uuid)))
     = [js ''    <navPoint id=\"folder-1\" playOrder=\"1\">'',
        js ''      <navPoint id=\"page-1\" playOrder=\"2\">'',
        js ''      <navPoint id=\"page-2\" playOrder=\"3\">'',
        js ''      <navPoint id=\"page-4\" playOrder=\"4\">'',
        js ''    <navPoint id=\"folder-2\" playOrder=\"5\">'',
        js ''      <navPoint id=\"page-3\" playOrder=\"6\">'',
        js ''    <navPoint id=\"folder-3\" playOrder=\"7\">'',
        js ''      <navPoint id=\"page-1\" playOrder=\"8\">'',
        js ''      <navPoint id=\"page-2\" playOrder=\"9\">'',
        js ''      <navPoint id=\"page-4\" playOrder=\"10\">'']"
proof -
  have one_entry: "navMap (merge_createTocNcx (mergedImageList foldersAA) title uuid)
     = textLines
         [js ''    <navPoint id=\"folder-1\" playOrder=\"1\">'',
          js ''      <navLabel>'',
          js ''        <text>A</text>'',
          js ''      </navLabel>'',
          js ''      <content src=\"text/page_0001.xhtml\"/>'',
          js ''      <navPoint id=\"page-1\" playOrder=\"2\">'',
          js ''        <navLabel>'',
          js ''          <text>'' @ Pagina 1 @ js ''</text>'',
          js ''        </navLabel>'',
          js ''        <content src=\"text/page_0001.xhtml\"/>'',
          js ''      </navPoint>'',
          js ''      <navPoint id=\"page-2\" playOrder=\"3\">'',
          js ''        <navLabel>'',
          js ''          <text>'' @ Pagina 1 @ js ''</text>'',
          js ''        </navLabel>'',
          js ''        <content src=\"text/page_0002.xhtml\"/>'',
          js ''      </navPoint>'',
          js ''    </navPoint>'']"
    apply (simp add: foldersAA_def merged_eval textLines_def js_eq_iff js_empty_iff)
    apply (simp only: folderOpening_def pageNavPoint_def folderClosing_def append_assoc)
    apply (intro same_lines)
    apply (simp_all add: toc_values js_def)
    done
  have "filter (\<lambda>l. includes_str l (js ''<navPoint '')) (split_newline (navMap (merge_createTocNcx (mergedImageList foldersABA) title uuid)))
     = [js ''    <navPoint id=\"folder-1\" playOrder=\"1\">'',
        js ''      <navPoint id=\"page-1\" playOrder=\"2\">'',
        js ''      <navPoint id=\"page-2\" playOrder=\"3\">'',
        js ''      <navPoint id=\"page-4\" playOrder=\"4\">'',
        js ''    <navPoint id=\"folder-2\" playOrder=\"5\">'',
        js ''      <navPoint id=\"page-3\" playOrder=\"6\">'',
        js ''    <navPoint id=\"folder-3\" playOrder=\"7\">'',
        js ''      <navPoint id=\"page-1\" playOrder=\"8\">'',
        js ''      <navPoint id=\"page-2\" playOrder=\"9\">'',
        js ''      <navPoint id=\"page-4\" playOrder=\"10\">'']"
    unfolding merged_toc_text_ABA
    by (subst navPoint_lines) (simp_all add: js_def Pagina_def numberToString_digit)
  with one_entry show ?thesis by (rule conjI)
qed


section \<open>Properties of the runs\<close>

lemma epub_single_mode_exit_1:
  "fst (epub_run lc w (node # script # folderPath # outputName # others)) = 1 \<and>
   created (snd (epub_run lc w (node # script # folderPath # outputName # others))) = created w"
  by (simp add: epub_run_def validateArguments_def invokeSorter_def exitWith_def Let_def
           split: sum.splits)

lemma pdf_processEntry_dirs: "dirs (pdf_processEntry lc w e) = dirs w"
  by (simp add: pdf_processEntry_def entryFailed_def createPdf_def Let_def split: sum.splits if_splits)

lemma pdf_processCsvEntries_dirs: "dirs (pdf_processCsvEntries lc w es) = dirs w"
  unfolding pdf_processCsvEntries_def
  by (induction es arbitrary: w) (simp_all add: pdf_processEntry_dirs)

lemma pdf_run_dirs: "dirs (snd (pdf_run lc w args)) = dirs w"
  by (simp add: pdf_run_def exitWith_def createPdf_def pdf_processCsvEntries_dirs Let_def
           split: sum.splits params.splits if_splits)

lemma example_csv:
  "readCsvFile exampleWorld (js ''list.csv'')
     = Inr [\<lparr>nome = js ''E'', caminho = js ''/empty''\<rparr>, \<lparr>nome = js ''doc'', caminho = js ''/imgs''\<rparr>]"
  by (simp add: readCsvFile_def exampleWorld_def readCsvContent_def js_def trim_def isWhiteSpace_def
        toLowerCase_def lowerUnit_def parseCsvLine_def)

lemma js_append: "js a @ js b = js (a @ b)"
  by (simp add: js_def)

lemma js_append2: "js a @ js b @ rest = js (a @ b) @ rest"
  by (simp add: js_def)

lemma js_slash: "[SLASH] = js ''/''" "SLASH # js s = js (CHR ''/'' # s)"
  by (simp_all add: js_def)

lemma example_dirs:
  "dirs exampleWorld (js s) =
     (if s = ''/imgs'' then Some [js ''10.jpg'', js ''2.PNG'', js ''readme.txt'', js ''1.webp'']
      else if s = ''/empty'' then Some [js ''notes.txt'']
      else None)"
  by (simp add: exampleWorld_def js_eq_iff)

lemma example_files:
  "files exampleWorld (js s) \<noteq> None \<longleftrightarrow>
     s = ''/imgs/10.jpg'' \<or> s = ''/imgs/2.PNG'' \<or> s = ''/imgs/1.webp'' \<or> s = ''list.csv''"
  by (simp add: exampleWorld_def js_eq_iff)

lemma example_files_None:
  "files exampleWorld (js s) = None \<longleftrightarrow>
     \<not> (s = ''/imgs/10.jpg'' \<or> s = ''/imgs/2.PNG'' \<or> s = ''/imgs/1.webp'' \<or> s = ''list.csv'')"
  using example_files [of s] by blast

lemma example_names:
  "withExtension (js ''book'') (js ''.pdf'') = js ''book.pdf''"
  "withExtension (js ''book'') (js ''.epub'') = js ''book.epub''"
  "withExtension (js ''doc'') (js ''.pdf'') = js ''doc.pdf''"
  "withExtension (js ''doc'') (js ''.epub'') = js ''doc.epub''"
  "withExtension (js ''all'') (js ''.pdf'') = js ''all.pdf''"
  "withExtension (js ''all'') (js ''.epub'') = js ''all.epub''"
  "dirnameOf (js ''book.pdf'') = []"
  "dirnameOf (js ''pdf/doc.pdf'') = js ''pdf''"
  "dirnameOf (js ''epub/doc.epub'') = js ''epub''"
  "dirnameOf (js ''epub/book.epub'') = js ''epub''"
  "dirnameOf (js ''pdf/all.pdf'') = js ''pdf''"
  "dirnameOf (js ''epub/all.epub'') = js ''epub''"
  "startsWith (js ''all.pdf'') (js ''/'') = False"
  "startsWith (js ''all.epub'') (js ''/'') = False"
  "startsWith (js ''book.epub'') (js ''/'') = False"
  by (simp_all add: withExtension_def endsWith_def dirnameOf_def js_def)

lemma example_images:
  "isImageFile (js ''10.jpg'')" "isImageFile (js ''2.PNG'')" "isImageFile (js ''1.webp'')"
  "\<not> isImageFile (js ''readme.txt'')" "\<not> isImageFile (js ''notes.txt'')"
  by (simp_all add: isImageFile_def supportedExtensions_def extname_def lastSegment_def
        toLowerCase_def lowerUnit_def js_def)


lemmas example_eval =
  validateArguments_def merge_validateArguments_def
  validateFolder_def readImageFiles_def merge_readImageFiles_def
  invokeSorter_def exitWith_def access_def
  pdf_processCsvEntries_def pdf_processEntry_def epub_processCsvEntries_def epub_processEntry_def
  collectAllImages_def collectFolder_def imagesInfo_def entryFailed_def
  joinPath_def resolveIn_def createPdf_def createEpub_def mkdirRecursive_def parentExists_def
  js_eq_iff js_empty_iff js_append js_append2 js_slash
  example_dirs example_files example_files_None example_names example_images example_sorted example_csv
  Let_def

text \<open>
  C1. In single-folder mode \<open>run\<close> of \<open>ImageToEpubConverter\<close> calls
  \<open>this.sortFilesNumericamente\<close>, a property the class does not define (its method is
  \<open>sortFilesNumerically\<close>). Whatever the folder and the output name, the run ends with
  exit status 1 and creates no document. On the example folder, which holds three
  images, the error printed is this \<open>TypeError\<close>; the PDF converter, whose run calls
  \<open>sortFilesNumerically\<close>, ends with status 0 on the same folder and writes the
  document with its pages in numeric order.
\<close>

theorem epub_single_folder_run_fails:
  "fst (epub_run lc w (node # script # folderPath # outputName # others)) = 1 \<and>
   created (snd (epub_run lc w (node # script # folderPath # outputName # others))) = created w \<and>
   epub_run rootCollation exampleWorld
       [js ''node'', js ''epub-converter.js'', js ''/imgs'', js ''book'']
     = (1, exampleWorld\<lparr>console := console exampleWorld @ [Fatal (NotAFunction ''sortFilesNumericamente'')]\<rparr>) \<and>
   fst (pdf_run rootCollation exampleWorld [js ''node'', js ''gen-pdf.js'', js ''/imgs'', js ''book'']) = 0 \<and>
   created (snd (pdf_run rootCollation exampleWorld
                   [js ''node'', js ''gen-pdf.js'', js ''/imgs'', js ''book'']))
     = created exampleWorld @ [(js ''book.pdf'', [js ''/imgs/1.webp'', js ''/imgs/2.PNG'', js ''/imgs/10.jpg''])]"
proof -
  have "epub_run rootCollation exampleWorld
       [js ''node'', js ''epub-converter.js'', js ''/imgs'', js ''book'']
     = (1, exampleWorld\<lparr>console := console exampleWorld @ [Fatal (NotAFunction ''sortFilesNumericamente'')]\<rparr>)"
    by (simp add: epub_run_def example_eval)
  moreover have "fst (pdf_run rootCollation exampleWorld [js ''node'', js ''gen-pdf.js'', js ''/imgs'', js ''book'']) = 0 \<and>
   created (snd (pdf_run rootCollation exampleWorld
                   [js ''node'', js ''gen-pdf.js'', js ''/imgs'', js ''book'']))
     = created exampleWorld @ [(js ''book.pdf'', [js ''/imgs/1.webp'', js ''/imgs/2.PNG'', js ''/imgs/10.jpg''])]"
    by (simp add: pdf_run_def example_eval)
  ultimately show ?thesis using epub_single_mode_exit_1 [of lc w node script folderPath outputName others]
    by (simp only: simp_thms)
qed


text \<open>
  C8. \<open>processCsvEntries\<close> of \<open>ImageToPdfConverter\<close> writes into \<open>pdf/\<close> and never
  creates that directory: no run of the converter changes the set of directories. In the
  example, started without \<open>pdf/\<close>, the batch run ends with status 0, no document, and
  the write error of the entry on the console. \<open>ImageToEpubConverter\<close> and
  \<open>MergePdfConverter\<close>, run on the same CSV file, create \<open>epub/\<close> and \<open>pdf/\<close>
  and write their documents.
\<close>

theorem pdf_batch_does_not_create_directory:
  "dirs (snd (pdf_run lc w args)) = dirs w \<and>
   dirs exampleWorld (js ''pdf'') = None \<and>
   fst (pdf_run rootCollation exampleWorld [js ''node'', js ''gen-pdf.js'', js ''list.csv'']) = 0 \<and>
   created (snd (pdf_run rootCollation exampleWorld [js ''node'', js ''gen-pdf.js'', js ''list.csv''])) = [] \<and>
   console (snd (pdf_run rootCollation exampleWorld [js ''node'', js ''gen-pdf.js'', js ''list.csv'']))
     = [EntryFailed (js ''E'') (ReadFolderError NoImagesFound),
        EntryFailed (js ''doc'') (IOError (js ''pdf/doc.pdf''))] \<and>
   dirs exampleWorld (js ''epub'') = None \<and>
   dirs (snd (epub_run rootCollation exampleWorld [js ''node'', js ''epub-converter.js'', js ''list.csv'']))
        (js ''epub'') = Some [] \<and>
   created (snd (epub_run rootCollation exampleWorld [js ''node'', js ''epub-converter.js'', js ''list.csv'']))
     = [(js ''epub/doc.epub'', [js ''/imgs/1.webp'', js ''/imgs/2.PNG'', js ''/imgs/10.jpg''])] \<and>
   dirs (snd (mergePdf_run rootCollation exampleWorld
                [js ''node'', js ''merge-pdf.js'', js ''list.csv'', js ''all'']))
        (js ''pdf'') = Some [] \<and>
   created (snd (mergePdf_run rootCollation exampleWorld
                [js ''node'', js ''merge-pdf.js'', js ''list.csv'', js ''all'']))
     = [(js ''pdf/all.pdf'', [js ''/imgs/1.webp'', js ''/imgs/2.PNG'', js ''/imgs/10.jpg''])]"
proof -
  have e: "created exampleWorld = []" "console exampleWorld = []" "zipInstalled exampleWorld"
    by (simp_all add: exampleWorld_def)
  have a: "dirs exampleWorld (js ''pdf'') = None \<and> dirs exampleWorld (js ''epub'') = None"
    by (simp add: example_dirs)
  have b: "fst (pdf_run rootCollation exampleWorld [js ''node'', js ''gen-pdf.js'', js ''list.csv'']) = 0 \<and>
   created (snd (pdf_run rootCollation exampleWorld [js ''node'', js ''gen-pdf.js'', js ''list.csv''])) = [] \<and>
   console (snd (pdf_run rootCollation exampleWorld [js ''node'', js ''gen-pdf.js'', js ''list.csv'']))
     = [EntryFailed (js ''E'') (ReadFolderError NoImagesFound),
        EntryFailed (js ''doc'') (IOError (js ''pdf/doc.pdf''))]"
    by (simp add: pdf_run_def example_eval e)
  have c: "dirs (snd (epub_run rootCollation exampleWorld [js ''node'', js ''epub-converter.js'', js ''list.csv'']))
        (js ''epub'') = Some [] \<and>
   created (snd (epub_run rootCollation exampleWorld [js ''node'', js ''epub-converter.js'', js ''list.csv'']))
     = [(js ''epub/doc.epub'', [js ''/imgs/1.webp'', js ''/imgs/2.PNG'', js ''/imgs/10.jpg''])]"
    by (simp add: epub_run_def example_eval e)
  have d: "dirs (snd (mergePdf_run rootCollation exampleWorld
                [js ''node'', js ''merge-pdf.js'', js ''list.csv'', js ''all'']))
        (js ''pdf'') = Some [] \<and>
   created (snd (mergePdf_run rootCollation exampleWorld
                [js ''node'', js ''merge-pdf.js'', js ''list.csv'', js ''all'']))
     = [(js ''pdf/all.pdf'', [js ''/imgs/1.webp'', js ''/imgs/2.PNG'', js ''/imgs/10.jpg''])]"
    by (simp add: mergePdf_run_def example_eval e)
  from a b c d pdf_run_dirs [of lc w args] show ?thesis by (simp only: simp_thms)
qed


lemma single_folder_without_images:
  assumes "dirs w folderPath = Some listing" "filter isImageFile listing = []" "outputName \<noteq> []"
  shows "epub_run lc w [node, script, folderPath, outputName] = exitWith w (ReadFolderError NoImagesFound)"
    and "pdf_run lc w [node, script, folderPath, outputName] = exitWith w (ReadFolderError NoImagesFound)"
  using assms
  by (simp_all add: epub_run_def pdf_run_def validateArguments_def validateFolder_def readImageFiles_def)

lemma batch_entry_without_images:
  assumes "dirs w (caminho e) = Some listing" "filter isImageFile listing = []"
  shows "epub_processEntry lc w e = entryFailed (nome e) w (ReadFolderError NoImagesFound)"
    and "pdf_processEntry lc w e = entryFailed (nome e) w (ReadFolderError NoImagesFound)"
    and "collectFolder lc i (w, allImages) e
           = (w\<lparr>console := console w @ [NoImagesWarning (caminho e)]\<rparr>, allImages)"
  using assms
  by (simp_all add: epub_processEntry_def pdf_processEntry_def collectFolder_def validateFolder_def
        readImageFiles_def merge_readImageFiles_def)

lemma batch_run_exit_0:
  assumes "files w csvFile = Some content" "readCsvContent content = Inr entries"
  shows "fst (epub_run lc w [node, script, csvFile]) = 0"
    and "fst (pdf_run lc w [node, script, csvFile]) = 0"
  using assms
  by (simp_all add: epub_run_def pdf_run_def validateArguments_def access_def readCsvFile_def)

lemma collectFolder_sameFiles:
  "sameFiles w (fst state) \<Longrightarrow> sameFiles w (fst (collectFolder lc i state e))"
  by (simp add: collectFolder_def sameFiles_def entryFailed_def Let_def split: sum.splits)

lemma collectLoop_sameFiles:
  "sameFiles w (fst state) \<Longrightarrow> sameFiles w (fst (collectLoop lc i state es))"
  by (induction es arbitrary: i state) (simp_all add: collectFolder_sameFiles)

lemma dirnameOf_join: "SLASH \<notin> set n \<Longrightarrow> dirnameOf (d @ SLASH # n) = d"
proof -
  assume "SLASH \<notin> set n"
  then have "dropWhile (\<lambda>c. c \<noteq> SLASH) (rev n @ SLASH # rev d) = SLASH # rev d"
    by (subst dropWhile_append2) auto
  then show ?thesis by (simp add: dirnameOf_def)
qed

lemma withExtension_plain:
  assumes "name \<noteq> []" "SLASH \<notin> set name" "SLASH \<notin> set ext"
  shows "SLASH \<notin> set (withExtension name ext)" and "\<not> startsWith (withExtension name ext) [SLASH]"
proof -
  from assms show "SLASH \<notin> set (withExtension name ext)" by (simp add: withExtension_def)
  from assms obtain c cs where "name = c # cs" "c \<noteq> SLASH" by (cases name) auto
  then show "\<not> startsWith (withExtension name ext) [SLASH]" by (auto simp: withExtension_def)
qed

lemma merge_run_exit_0:
  assumes csv: "files w csvFile = Some content" "readCsvContent content = Inr entries"
    and collected: "snd (collectLoop lc 0 (w, []) entries) \<noteq> []"
    and regular: "\<forall>img \<in> set (snd (collectLoop lc 0 (w, []) entries)). files w (path img) \<noteq> None"
    and zip: "zipInstalled w" and free: "files w (js ''epub'') = None"
    and name: "outputName \<noteq> []" "SLASH \<notin> set outputName"
  shows "fst (mergeEpub_run lc w [node, script, csvFile, outputName]) = 0"
proof -
  define state where "state = collectLoop lc 0 (w, []) entries"
  define w1 where "w1 = fst state"
  define allImages where "allImages = snd state"
  define outFile where "outFile = withExtension outputName (js ''.epub'')"
  have "sameFiles w (fst (w, []))" by (simp add: sameFiles_def)
  then have same: "sameFiles w w1" unfolding w1_def state_def by (rule collectLoop_sameFiles)
  have collect: "collectAllImages lc w entries = (w1, Inr allImages)"
    using collected by (simp add: collectAllImages_def state_def w1_def allImages_def Let_def)
  have slash: "SLASH \<notin> set outFile" and rel: "\<not> startsWith outFile [SLASH]"
    unfolding outFile_def using name by (simp_all add: withExtension_plain js_def)
  then have out: "resolveIn (js ''epub'') outFile = js ''epub'' @ [SLASH] @ outFile"
    by (simp add: resolveIn_def)
  have "\<exists>w2. mkdirRecursive w1 (js ''epub'') = Inr w2 \<and> dirs w2 (js ''epub'') \<noteq> None \<and>
          files w2 = files w \<and> zipInstalled w2 = zipInstalled w"
  proof (cases "dirs w1 (js ''epub'') = None")
    case True
    then show ?thesis using same free by (simp add: mkdirRecursive_def sameFiles_def)
  next
    case False
    then show ?thesis using same by (simp add: mkdirRecursive_def sameFiles_def)
  qed
  then obtain w2 where mk: "mkdirRecursive w1 (js ''epub'') = Inr w2"
    and dir: "dirs w2 (js ''epub'') \<noteq> None"
    and same2: "files w2 = files w" "zipInstalled w2 = zipInstalled w"
    by blast
  have "parentExists w2 (js ''epub'' @ [SLASH] @ outFile)"
    using dir slash by (simp add: parentExists_def dirnameOf_join)
  moreover have "filter (\<lambda>p. files w2 p = None) (map path allImages) = []"
    using regular by (simp add: same2 allImages_def state_def filter_empty_conv)
  ultimately obtain w3 where "createEpub w2 (map path allImages) (js ''epub'' @ [SLASH] @ outFile) = Inr w3"
    using zip by (simp add: createEpub_def same2)
  then have "createEpub w2 (map path allImages)
               (js ''epub'' @ SLASH # withExtension outputName (js ''.epub'')) = Inr w3"
    by (simp add: outFile_def)
  then show ?thesis
    using csv name(1) collect mk
    by (simp add: mergeEpub_run_def merge_validateArguments_def access_def readCsvFile_def
          out [unfolded outFile_def])
qed


text \<open>
  C7. Let a folder exist and hold no file with a supported extension. A single-folder
  run on it ends with exit status 1 and the error that no image was found. In a CSV
  batch the entry of that folder is reported on the console, nothing is created for it,
  and the loop goes on with the entries after it; the batch run ends with status 0
  whenever the CSV file could be read. In a merge the folder is reported by
  \<open>console.warn\<close>, adds no image, and the collection goes on; the merge run ends with
  status 0 when some other folder contributed images, these are regular files, the
  \<open>zip\<close> command works and the output name is a plain file name.
\<close>

theorem empty_folder_asymmetry:
  assumes "dirs w folderPath = Some listing" and "filter isImageFile listing = []"
  shows "(outputName \<noteq> [] \<longrightarrow>
            epub_run lc w [node, script, folderPath, outputName]
              = exitWith w (ReadFolderError NoImagesFound) \<and>
            pdf_run lc w [node, script, folderPath, outputName]
              = exitWith w (ReadFolderError NoImagesFound)) \<and>
         (caminho e = folderPath \<longrightarrow>
            epub_processCsvEntries lc w (e # es)
              = epub_processCsvEntries lc (entryFailed (nome e) w (ReadFolderError NoImagesFound)) es \<and>
            pdf_processCsvEntries lc w (e # es)
              = pdf_processCsvEntries lc (entryFailed (nome e) w (ReadFolderError NoImagesFound)) es \<and>
            collectLoop lc i (w, allImages) (e # es)
              = collectLoop lc (i + 1)
                  (w\<lparr>console := console w @ [NoImagesWarning folderPath]\<rparr>, allImages) es) \<and>
         (files w csvFile = Some content \<and> readCsvContent content = Inr entries \<longrightarrow>
            fst (epub_run lc w [node, script, csvFile]) = 0 \<and>
            fst (pdf_run lc w [node, script, csvFile]) = 0 \<and>
            (snd (collectLoop lc 0 (w, []) entries) \<noteq> [] \<and>
             (\<forall>img \<in> set (snd (collectLoop lc 0 (w, []) entries)). files w (path img) \<noteq> None) \<and>
             zipInstalled w \<and> files w (js ''epub'') = None \<and>
             mergedName \<noteq> [] \<and> SLASH \<notin> set mergedName \<longrightarrow>
               fst (mergeEpub_run lc w [node, script, csvFile, mergedName]) = 0))"
proof (intro conjI impI)
  assume "outputName \<noteq> []"
  with assms show "epub_run lc w [node, script, folderPath, outputName]
                     = exitWith w (ReadFolderError NoImagesFound)"
    by (rule single_folder_without_images(1))
next
  assume "outputName \<noteq> []"
  with assms show "pdf_run lc w [node, script, folderPath, outputName]
                     = exitWith w (ReadFolderError NoImagesFound)"
    by (rule single_folder_without_images(2))
next
  assume "caminho e = folderPath"
  with assms have d: "dirs w (caminho e) = Some listing" by simp
  from batch_entry_without_images(1) [OF d assms(2)]
  show "epub_processCsvEntries lc w (e # es)
          = epub_processCsvEntries lc (entryFailed (nome e) w (ReadFolderError NoImagesFound)) es"
    by (simp add: epub_processCsvEntries_def)
next
  assume "caminho e = folderPath"
  with assms have d: "dirs w (caminho e) = Some listing" by simp
  from batch_entry_without_images(2) [OF d assms(2)]
  show "pdf_processCsvEntries lc w (e # es)
          = pdf_processCsvEntries lc (entryFailed (nome e) w (ReadFolderError NoImagesFound)) es"
    by (simp add: pdf_processCsvEntries_def)
next
  assume c: "caminho e = folderPath"
  with assms have d: "dirs w (caminho e) = Some listing" by simp
  from batch_entry_without_images(3) [OF d assms(2)] c
  show "collectLoop lc i (w, allImages) (e # es)
          = collectLoop lc (i + 1) (w\<lparr>console := console w @ [NoImagesWarning folderPath]\<rparr>, allImages) es"
    by simp
next
  assume "files w csvFile = Some content \<and> readCsvContent content = Inr entries"
  then show "fst (epub_run lc w [node, script, csvFile]) = 0"
    using batch_run_exit_0(1) by blast
next
  assume "files w csvFile = Some content \<and> readCsvContent content = Inr entries"
  then show "fst (pdf_run lc w [node, script, csvFile]) = 0"
    using batch_run_exit_0(2) by blast
next
  assume "files w csvFile = Some content \<and> readCsvContent content = Inr entries"
    and "snd (collectLoop lc 0 (w, []) entries) \<noteq> [] \<and>
         (\<forall>img \<in> set (snd (collectLoop lc 0 (w, []) entries)). files w (path img) \<noteq> None) \<and>
         zipInstalled w \<and> files w (js ''epub'') = None \<and>
         mergedName \<noteq> [] \<and> SLASH \<notin> set mergedName"
  then show "fst (mergeEpub_run lc w [node, script, csvFile, mergedName]) = 0"
    using merge_run_exit_0 [of w csvFile content entries lc mergedName node script] by blast
qed

lemma example_collect:
  "collectLoop rootCollation 0 (exampleWorld, [])
     [\<lparr>nome = js ''E'', caminho = js ''/empty''\<rparr>, \<lparr>nome = js ''doc'', caminho = js ''/imgs''\<rparr>]
   = (exampleWorld\<lparr>console := console exampleWorld @ [NoImagesWarning (js ''/empty'')]\<rparr>,
      imagesInfo (js ''doc'') (js ''/imgs'') 1 [js ''1.webp'', js ''2.PNG'', js ''10.jpg''])"
  by (simp add: example_eval)

theorem empty_folder_asymmetry_witness:
  "dirs exampleWorld (js ''/empty'') = Some [js ''notes.txt''] \<and>
   filter isImageFile [js ''notes.txt''] = [] \<and>
   epub_run rootCollation exampleWorld [js ''node'', js ''epub-converter.js'', js ''/empty'', js ''book'']
     = (1, exampleWorld\<lparr>console := console exampleWorld @ [Fatal (ReadFolderError NoImagesFound)]\<rparr>) \<and>
   epub_processCsvEntries rootCollation exampleWorld
       [\<lparr>nome = js ''E'', caminho = js ''/empty''\<rparr>, \<lparr>nome = js ''doc'', caminho = js ''/imgs''\<rparr>]
     = epub_processCsvEntries rootCollation
         (entryFailed (js ''E'') exampleWorld (ReadFolderError NoImagesFound))
         [\<lparr>nome = js ''doc'', caminho = js ''/imgs''\<rparr>] \<and>
   fst (epub_run rootCollation exampleWorld [js ''node'', js ''epub-converter.js'', js ''list.csv'']) = 0 \<and>
   created (snd (epub_run rootCollation exampleWorld [js ''node'', js ''epub-converter.js'', js ''list.csv'']))
     = [(js ''epub/doc.epub'', [js ''/imgs/1.webp'', js ''/imgs/2.PNG'', js ''/imgs/10.jpg''])] \<and>
   fst (mergeEpub_run rootCollation exampleWorld
          [js ''node'', js ''gen-lote-epub.js'', js ''list.csv'', js ''all'']) = 0 \<and>
   console (snd (mergeEpub_run rootCollation exampleWorld
          [js ''node'', js ''gen-lote-epub.js'', js ''list.csv'', js ''all'']))
     = [NoImagesWarning (js ''/empty'')]"
proof -
  let ?E = "\<lparr>nome = js ''E'', caminho = js ''/empty''\<rparr>"
  let ?D = "\<lparr>nome = js ''doc'', caminho = js ''/imgs''\<rparr>"
  have e: "created exampleWorld = []" "console exampleWorld = []" "zipInstalled exampleWorld"
    by (simp_all add: exampleWorld_def)
  have h1: "dirs exampleWorld (js ''/empty'') = Some [js ''notes.txt'']"
    by (simp add: example_dirs)
  have h2: "filter isImageFile [js ''notes.txt''] = []"
    by (simp add: example_images)
  have h3: "js ''book'' \<noteq> []" "caminho ?E = js ''/empty''" "js ''all'' \<noteq> []" "SLASH \<notin> set (js ''all'')"
    by (simp_all add: js_def)
  have h4: "files exampleWorld (js ''list.csv'')
              = Some (js ''nome;caminho'' @ [NEWLINE] @ js ''E;/empty'' @ [NEWLINE] @ js ''doc;/imgs'' @ [NEWLINE])"
    by (simp add: exampleWorld_def js_eq_iff)
  have h5: "readCsvContent (js ''nome;caminho'' @ [NEWLINE] @ js ''E;/empty'' @ [NEWLINE] @ js ''doc;/imgs'' @ [NEWLINE])
              = Inr [?E, ?D]"
    using example_csv by (simp add: readCsvFile_def h4)
  have h6: "snd (collectLoop rootCollation 0 (exampleWorld, []) [?E, ?D]) \<noteq> []"
    by (subst example_collect) (simp add: imagesInfo_def)
  have h7: "\<forall>img \<in> set (snd (collectLoop rootCollation 0 (exampleWorld, []) [?E, ?D])).
              files exampleWorld (path img) \<noteq> None"
    by (subst example_collect)
       (simp add: imagesInfo_def example_files [unfolded not_None_eq] js_append js_append2 js_slash)
  have h8: "files exampleWorld (js ''epub'') = None"
    by (simp add: example_files_None)
  have run: "console (snd (mergeEpub_run rootCollation exampleWorld
          [js ''node'', js ''gen-lote-epub.js'', js ''list.csv'', js ''all'']))
     = [NoImagesWarning (js ''/empty'')]"
    by (simp add: mergeEpub_run_def example_eval e)
  have batch: "created (snd (epub_run rootCollation exampleWorld [js ''node'', js ''epub-converter.js'', js ''list.csv'']))
     = [(js ''epub/doc.epub'', [js ''/imgs/1.webp'', js ''/imgs/2.PNG'', js ''/imgs/10.jpg''])]"
    by (simp add: epub_run_def example_eval e)
  from empty_folder_asymmetry [OF h1 h2, of "js ''book''" rootCollation "js ''node''"
         "js ''epub-converter.js''" ?E "[?D]" 0 "[]" "js ''list.csv''" _ "[?E, ?D]" "js ''all''"]
       h3 h4 h5 h6 h7 h8 e(3)
  have "epub_run rootCollation exampleWorld [js ''node'', js ''epub-converter.js'', js ''/empty'', js ''book'']
          = exitWith exampleWorld (ReadFolderError NoImagesFound)"
    and "epub_processCsvEntries rootCollation exampleWorld [?E, ?D]
          = epub_processCsvEntries rootCollation
              (entryFailed (js ''E'') exampleWorld (ReadFolderError NoImagesFound)) [?D]"
    and "fst (epub_run rootCollation exampleWorld [js ''node'', js ''epub-converter.js'', js ''list.csv'']) = 0"
    and "fst (mergeEpub_run rootCollation exampleWorld
          [js ''node'', js ''epub-converter.js'', js ''list.csv'', js ''all'']) = 0"
    by simp_all
  moreover have "fst (mergeEpub_run rootCollation exampleWorld
          [js ''node'', js ''gen-lote-epub.js'', js ''list.csv'', js ''all''])
        = fst (mergeEpub_run rootCollation exampleWorld
          [js ''node'', js ''epub-converter.js'', js ''list.csv'', js ''all''])"
    by (simp add: mergeEpub_run_def merge_validateArguments_def)
  ultimately show ?thesis using h1 h2 run batch by (simp add: exitWith_def)
qed


end
